theory Spec2Isabelle
  imports Main "HOL-Library.Word" "HOL-Library.Multiset" "HOL-Library.List_Lexorder"
begin

unbundle bit_operations_syntax

section \<open>JavaScript values shared by the components\<close>

text \<open>
  A thrown value or a rejected promise is an error object; the handlers of the sources
  only ever read its \<open>message\<close>. A promise is modelled by its settlement:
  \<open>Inl e\<close> is a rejection (or a synchronous throw), \<open>Inr v\<close> a resolution.
\<close>

datatype js_error = Error string | TypeError string | URIError string | SyntaxError string

fun message :: "js_error \<Rightarrow> string" where
  "message (Error m) = m"
| "message (TypeError m) = m"
| "message (URIError m) = m"
| "message (SyntaxError m) = m"

section \<open>Control channel client (McpClient)\<close>

text \<open>
  The socket is represented by its \<open>readyState\<close>; \<open>None\<close> is the \<open>null\<close> of
  \<open>this.ws\<close>. A pending reconnect timer is represented by the delay (in ms) it was armed
  with; \<open>None\<close> is the \<open>null\<close> of \<open>this.reconnectTimer\<close>.
\<close>

datatype readyState = CONNECTING | OPEN | CLOSING | CLOSED

record McpClient =
  ws :: "readyState option"
  reconnectTimer :: "nat option"
  token :: "string option"
  reconnectAttempts :: nat

definition minReconnectInterval :: nat where
  "minReconnectInterval = 1000"

definition maxReconnectInterval :: nat where
  "maxReconnectInterval = 30000"

definition maxReconnectAttempts :: nat where
  "maxReconnectAttempts = 100"

definition setToken :: "string \<Rightarrow> McpClient \<Rightarrow> McpClient" where
  "setToken t c = c\<lparr>token := Some t\<rparr>"

definition clearToken :: "McpClient \<Rightarrow> McpClient" where
  "clearToken c = c\<lparr>token := None\<rparr>"

definition isConnected :: "McpClient \<Rightarrow> bool" where
  "isConnected c = (ws c = Some OPEN)"

text \<open>
  \<open>scheduleReconnect\<close>: nothing happens while a timer is pending or once the attempt
  counter has reached the maximum; otherwise the counter is incremented and a timer is
  armed with \<open>Math.min(minReconnectInterval * Math.pow(2, reconnectAttempts),
  maxReconnectInterval)\<close>. The counter is below 100 where the power is computed, so
  the double-precision product is exact and a natural number models it.
\<close>

definition scheduleReconnect :: "McpClient \<Rightarrow> McpClient" where
  "scheduleReconnect c =
     (if reconnectTimer c \<noteq> None then c
      else if reconnectAttempts c \<ge> maxReconnectAttempts then c
      else
        let interval = min (minReconnectInterval * 2 ^ reconnectAttempts c) maxReconnectInterval
        in c\<lparr>reconnectAttempts := reconnectAttempts c + 1, reconnectTimer := Some interval\<rparr>)"

text \<open>
  \<open>connect\<close>: an open socket is kept; any other socket is dropped and a new one is
  constructed. The flag says whether the \<open>WebSocket\<close> constructor returns
  (\<open>True\<close>) or throws (\<open>False\<close>, the \<open>catch\<close> branch).
\<close>

definition connect :: "bool \<Rightarrow> McpClient \<Rightarrow> McpClient" where
  "connect ctor_ok c =
     (if ws c = Some OPEN then c
      else if ctor_ok then c\<lparr>ws := Some CONNECTING\<rparr>
      else scheduleReconnect (c\<lparr>ws := None\<rparr>))"

text \<open>The socket's event handlers installed by \<open>connect\<close>, and the timer callback.\<close>

definition onopen :: "McpClient \<Rightarrow> McpClient" where
  "onopen c = c\<lparr>ws := Some OPEN, reconnectAttempts := 0, reconnectTimer := None\<rparr>"

definition onclose :: "McpClient \<Rightarrow> McpClient" where
  "onclose c = scheduleReconnect (c\<lparr>ws := None\<rparr>)"

definition timer_fires :: "bool \<Rightarrow> McpClient \<Rightarrow> McpClient" where
  "timer_fires ctor_ok c = connect ctor_ok (c\<lparr>reconnectTimer := None\<rparr>)"

definition disconnect :: "McpClient \<Rightarrow> McpClient" where
  "disconnect c = c\<lparr>reconnectAttempts := maxReconnectAttempts, reconnectTimer := None, ws := None\<rparr>"

definition resetReconnect :: "bool \<Rightarrow> McpClient \<Rightarrow> McpClient" where
  "resetReconnect ctor_ok c =
     (let c1 = c\<lparr>reconnectAttempts := 0\<rparr>
      in if \<not> isConnected c1 then connect ctor_ok c1 else c1)"

subsection \<open>Inbound requests\<close>

record 'p RequestMessage =
  msg_id :: string
  msg_method :: string
  msg_token :: "string option"
  msg_params :: "'p option"

record RpcError =
  code :: int
  error_message :: string

record 'r ResponseMessage =
  resp_id :: string
  resp_result :: "'r option"
  resp_error :: "RpcError option"

text \<open>
  What one call of \<open>handleMessage\<close> does: the client afterwards, the frame handed to
  \<open>ws.send\<close> (if any), the calls of \<open>handleMethod\<close> it made (method and
  parameters), and whether the outer \<open>catch\<close> logged a failure.
\<close>

record ('p, 'r) handled =
  client :: McpClient
  sent :: "'r ResponseMessage option"
  dispatched :: "(string \<times> 'p option) list"
  logged_failure :: bool

text \<open>
  \<open>this.ws?.send(frame)\<close>: no call without a socket; \<open>send\<close> throws on a socket
  that is still connecting (caught by the outer handler) and hands the frame to the
  socket otherwise.
\<close>

definition ws_send :: "McpClient \<Rightarrow> 'r ResponseMessage \<Rightarrow> js_error + 'r ResponseMessage option" where
  "ws_send c frame =
     (case ws c of
        None \<Rightarrow> Inr None
      | Some CONNECTING \<Rightarrow> Inl (Error ''InvalidStateError'')
      | Some _ \<Rightarrow> Inr (Some frame))"

text \<open>
  \<open>handleMessage\<close>. \<open>JSON_parse\<close> is the outcome of \<open>JSON.parse(data)\<close> and
  \<open>handleMethod\<close> the outcome of the method table on a method name and its
  parameters; both are platform or collaborator behaviour and are parameters here.
  \<open>!this.token\<close> holds for \<open>null\<close> and for the empty string.
\<close>

definition handleMessage ::
  "(string \<Rightarrow> js_error + 'p RequestMessage) \<Rightarrow> (string \<Rightarrow> 'p option \<Rightarrow> js_error + 'r) \<Rightarrow>
   McpClient \<Rightarrow> string \<Rightarrow> ('p, 'r) handled" where
  "handleMessage JSON_parse handleMethod c data =
     (case JSON_parse data of
        Inl e \<Rightarrow> \<lparr>client = c, sent = None, dispatched = [], logged_failure = True\<rparr>
      | Inr msg \<Rightarrow>
          let (result, error, calls) =
                (if token c = None \<or> token c = Some []
                 then (None, Some \<lparr>code = 401, error_message = ''MCP token not configured''\<rparr>, [])
                 else if msg_token msg \<noteq> token c
                 then (None, Some \<lparr>code = 403, error_message = ''Invalid or missing token''\<rparr>, [])
                 else
                   (case handleMethod (msg_method msg) (msg_params msg) of
                      Inr r \<Rightarrow> (Some r, None, [(msg_method msg, msg_params msg)])
                    | Inl e \<Rightarrow> (None, Some \<lparr>code = - 1, error_message = message e\<rparr>,
                               [(msg_method msg, msg_params msg)])));
              response = \<lparr>resp_id = msg_id msg, resp_result = result, resp_error = error\<rparr>
          in (case ws_send c response of
                Inl e \<Rightarrow> \<lparr>client = c, sent = None, dispatched = calls, logged_failure = True\<rparr>
              | Inr frame \<Rightarrow> \<lparr>client = c, sent = frame, dispatched = calls, logged_failure = False\<rparr>))"

section \<open>Sync orchestrator (the popup's sync store)\<close>

text \<open>
  The store's state and the values it exchanges with the background page. Texts shown to
  the user are byte strings (UTF-8); the two validation messages are the byte sequences
  of the source's literals.
\<close>

datatype sourceType = dsl | cms

record Platform =
  p_id :: string
  p_name :: string
  icon :: string
  homepage :: string
  isAuthenticated :: bool
  username :: "string option"
  avatar :: "string option"
  sourceType :: sourceType
  cmsType :: "string option"

record Article =
  title :: string
  content :: string
  summary :: "string option"
  cover :: "string option"

record SyncResult =
  platform :: string
  platformName :: "string option"
  success :: bool
  postUrl :: "string option"
  draftOnly :: "bool option"
  result_error :: "string option"

record ImageProgress =
  ip_platform :: string
  current :: nat
  total :: nat

record SyncHistoryItem =
  h_id :: string
  h_title :: string
  h_cover :: "string option"
  h_timestamp :: nat
  h_results :: "SyncResult list"

datatype status = loading | idle | syncing | completed

record SyncState =
  status :: status
  article :: "Article option"
  platforms :: "Platform list"
  selectedPlatforms :: "string list"
  results :: "SyncResult list"
  error :: "string option"
  imageProgress :: "ImageProgress option"
  history :: "SyncHistoryItem list"
  recovered :: bool

record CmsAccount =
  acc_id :: string
  acc_name :: string
  acc_type :: string
  acc_url :: string
  acc_username :: "string option"
  isConnected :: bool

text \<open>
  The messages the store sends with \<open>chrome.runtime.sendMessage\<close>
  (\<open>SYNC_ARTICLE\<close> carries the article, the platform ids and \<open>skipHistory\<close>), and
  the fields the store reads from a response (\<open>None\<close> is \<open>undefined\<close>).
\<close>

datatype runtime_message =
    SYNC_ARTICLE Article "string list" bool
  | SYNC_TO_CMS string Article
  | CHECK_ALL_AUTH
  | CLEAR_SYNC_STATE

record Response =
  resp_results :: "SyncResult list option"
  resp_success :: bool
  resp_postUrl :: "string option"
  resp_draftOnly :: "bool option"
  resp_failure :: "string option"
  resp_platforms :: "Platform list option"

text \<open>
  The browser API as the store sees it: every call settles as a rejection or a value; a
  resolved \<open>sendMessage\<close> may carry no response object. \<open>progress_events\<close> are the
  \<open>SYNC_PROGRESS\<close> results the listener appends (through \<open>updateProgress\<close>) while
  the batch \<open>SYNC_ARTICLE\<close> call is outstanding.
\<close>

record chrome =
  sendMessage :: "runtime_message \<Rightarrow> js_error + Response option"
  storage_get_syncHistory :: "js_error + SyncHistoryItem list option"
  storage_set_syncHistory :: "SyncHistoryItem list \<Rightarrow> js_error + unit"
  storage_get_cmsAccounts :: "js_error + CmsAccount list option"
  storage_get_selectedPlatforms :: "js_error + string list option"
  progress_events :: "SyncResult list"

text \<open>
  What one action does: the store afterwards, the messages it sent (in order), and the
  history it wrote with \<open>chrome.storage.local.set\<close>, if any.
\<close>

record outcome =
  state :: SyncState
  calls :: "runtime_message list"
  stored :: "SyncHistoryItem list option"

definition MSG_NO_ARTICLE :: string where
  "MSG_NO_ARTICLE = map char_of [230, 156, 170, 230, 163, 128, 230, 181, 139, 229, 136, 176, 230, 150, 135, 231, 171, 160, 229, 134, 133, 229, 174, 185 :: nat]"

definition MSG_NO_SELECTION :: string where
  "MSG_NO_SELECTION = map char_of [232, 175, 183, 233, 128, 137, 230, 139, 169, 232, 166, 129, 229, 144, 140, 230, 173, 165, 231, 154, 132, 229, 185, 179, 229, 143, 176 :: nat]"

definition MSG_UNDEFINED_RESPONSE :: string where
  "MSG_UNDEFINED_RESPONSE = ''Cannot read properties of undefined''"

definition find_platform :: "Platform list \<Rightarrow> string \<Rightarrow> Platform option" where
  "find_platform ps i = find (\<lambda>p. p_id p = i) ps"

text \<open>\<open>platforms.find(p => p.id === id)?.sourceType === k\<close>\<close>

definition has_sourceType :: "Platform list \<Rightarrow> sourceType \<Rightarrow> string \<Rightarrow> bool" where
  "has_sourceType ps k i =
     (case find_platform ps i of None \<Rightarrow> False | Some p \<Rightarrow> sourceType p = k)"

text \<open>\<open>{...r, platformName: platforms.find(p => p.id === r.platform)?.name || r.platform}\<close>\<close>

definition withName :: "Platform list \<Rightarrow> SyncResult \<Rightarrow> SyncResult" where
  "withName ps r =
     r\<lparr>platformName :=
         Some (case find_platform ps (platform r) of
                 None \<Rightarrow> platform r
               | Some p \<Rightarrow> if p_name p = [] then platform r else p_name p)\<rparr>"

text \<open>
  The batch call for the built-in platforms: skipped for an empty id list; a rejection,
  or a missing response object (reading \<open>response.results\<close> throws), leaves the
  \<open>try\<close> block; a response without \<open>results\<close> contributes nothing.
\<close>

definition sync_dsl :: "chrome \<Rightarrow> Article \<Rightarrow> string list \<Rightarrow> bool \<Rightarrow> js_error + SyncResult list" where
  "sync_dsl env a ids skipHistory =
     (if ids = [] then Inr []
      else
        (case sendMessage env (SYNC_ARTICLE a ids skipHistory) of
           Inl e \<Rightarrow> Inl e
         | Inr None \<Rightarrow> Inl (TypeError MSG_UNDEFINED_RESPONSE)
         | Inr (Some r) \<Rightarrow> Inr (case resp_results r of None \<Rightarrow> [] | Some rs \<Rightarrow> rs)))"

definition dsl_calls :: "Article \<Rightarrow> string list \<Rightarrow> bool \<Rightarrow> runtime_message list" where
  "dsl_calls a ids skipHistory = (if ids = [] then [] else [SYNC_ARTICLE a ids skipHistory])"

text \<open>
  One round of the loop over the self-hosted accounts: the inner \<open>try\<close>/\<open>catch\<close>
  turns a rejected call (or a missing response object) into a failed result.
\<close>

definition cms_result :: "chrome \<Rightarrow> Article \<Rightarrow> string \<Rightarrow> SyncResult" where
  "cms_result env a accountId =
     (case sendMessage env (SYNC_TO_CMS accountId a) of
        Inl e \<Rightarrow>
          \<lparr>platform = accountId, platformName = None, success = False, postUrl = None,
           draftOnly = None, result_error = Some (message e)\<rparr>
      | Inr None \<Rightarrow>
          \<lparr>platform = accountId, platformName = None, success = False, postUrl = None,
           draftOnly = None, result_error = Some MSG_UNDEFINED_RESPONSE\<rparr>
      | Inr (Some r) \<Rightarrow>
          \<lparr>platform = accountId, platformName = None, success = resp_success r,
           postUrl = resp_postUrl r, draftOnly = resp_draftOnly r, result_error = resp_failure r\<rparr>)"

definition cms_calls :: "Article \<Rightarrow> string list \<Rightarrow> runtime_message list" where
  "cms_calls a ids = map (\<lambda>accountId. SYNC_TO_CMS accountId a) ids"

text \<open>The outer \<open>catch\<close> of \<open>startSync\<close>.\<close>

definition startSync_catch :: "js_error \<Rightarrow> SyncState \<Rightarrow> SyncState" where
  "startSync_catch e st = st\<lparr>error := Some (message e), status := idle, imageProgress := None\<rparr>"

definition startSync :: "chrome \<Rightarrow> SyncState \<Rightarrow> outcome" where
  "startSync env st =
     (case article st of
        None \<Rightarrow> \<lparr>state = st\<lparr>error := Some MSG_NO_ARTICLE\<rparr>, calls = [], stored = None\<rparr>
      | Some a \<Rightarrow>
          if selectedPlatforms st = []
          then \<lparr>state = st\<lparr>error := Some MSG_NO_SELECTION\<rparr>, calls = [], stored = None\<rparr>
          else
            let st1 = st\<lparr>status := syncing, results := [], error := None, imageProgress := None\<rparr>;
                dslPlatformIds = filter (has_sourceType (platforms st) dsl) (selectedPlatforms st);
                cmsPlatformIds = filter (has_sourceType (platforms st) cms) (selectedPlatforms st);
                st2 = (if dslPlatformIds = [] then st1
                       else st1\<lparr>results := results st1 @ progress_events env\<rparr>)
            in
              (case sync_dsl env a dslPlatformIds False of
                 Inl e \<Rightarrow>
                   \<lparr>state = startSync_catch e st2,
                    calls = dsl_calls a dslPlatformIds False, stored = None\<rparr>
               | Inr dslResults \<Rightarrow>
                   let allResults = dslResults @ map (cms_result env a) cmsPlatformIds;
                       resultsWithNames = map (withName (platforms st)) allResults;
                       sent_messages = dsl_calls a dslPlatformIds False @ cms_calls a cmsPlatformIds
                   in
                     (case storage_get_syncHistory env of
                        Inl e \<Rightarrow>
                          \<lparr>state = startSync_catch e st2, calls = sent_messages, stored = None\<rparr>
                      | Inr h \<Rightarrow>
                          \<lparr>state = st2\<lparr>status := completed, results := resultsWithNames,
                                        history := (case h of None \<Rightarrow> [] | Some newHistory \<Rightarrow> newHistory),
                                        imageProgress := None\<rparr>,
                           calls = sent_messages, stored = None\<rparr>)))"

text \<open>The outer \<open>catch\<close> of \<open>retryFailed\<close>.\<close>

definition retryFailed_catch :: "js_error \<Rightarrow> SyncState \<Rightarrow> SyncState" where
  "retryFailed_catch e st = st\<lparr>error := Some (message e), status := completed, imageProgress := None\<rparr>"

definition retryFailed :: "chrome \<Rightarrow> SyncState \<Rightarrow> outcome" where
  "retryFailed env st =
     (case article st of
        None \<Rightarrow> \<lparr>state = st\<lparr>error := Some MSG_NO_ARTICLE\<rparr>, calls = [], stored = None\<rparr>
      | Some a \<Rightarrow>
          let failedPlatformIds = map platform (filter (\<lambda>r. \<not> success r) (results st))
          in
            if failedPlatformIds = [] then \<lparr>state = st, calls = [], stored = None\<rparr>
            else
              let successResults = filter success (results st);
                  st1 = st\<lparr>status := syncing, results := successResults, error := None,
                           imageProgress := None\<rparr>;
                  dslPlatformIds = filter (has_sourceType (platforms st) dsl) failedPlatformIds;
                  cmsPlatformIds = filter (has_sourceType (platforms st) cms) failedPlatformIds;
                  st2 = (if dslPlatformIds = [] then st1
                         else st1\<lparr>results := results st1 @ progress_events env\<rparr>)
              in
                (case sync_dsl env a dslPlatformIds True of
                   Inl e \<Rightarrow>
                     \<lparr>state = retryFailed_catch e st2,
                      calls = dsl_calls a dslPlatformIds True, stored = None\<rparr>
                 | Inr dslResults \<Rightarrow>
                     let retryResults = dslResults @ map (cms_result env a) cmsPlatformIds;
                         retryResultsWithNames = map (withName (platforms st)) retryResults;
                         allResults = successResults @ retryResultsWithNames;
                         sent_messages = dsl_calls a dslPlatformIds True @ cms_calls a cmsPlatformIds
                     in
                       (case storage_get_syncHistory env of
                          Inl e \<Rightarrow>
                            \<lparr>state = retryFailed_catch e st2, calls = sent_messages, stored = None\<rparr>
                        | Inr h \<Rightarrow>
                            (case (case h of None \<Rightarrow> [] | Some existingHistory \<Rightarrow> existingHistory) of
                               [] \<Rightarrow>
                                 \<lparr>state = st2\<lparr>status := completed, results := allResults,
                                               imageProgress := None\<rparr>,
                                  calls = sent_messages, stored = None\<rparr>
                             | first # older \<Rightarrow>
                                 let updatedHistory = first\<lparr>h_results := allResults\<rparr> # older
                                 in
                                   (case storage_set_syncHistory env updatedHistory of
                                      Inl e \<Rightarrow>
                                        \<lparr>state = retryFailed_catch e st2, calls = sent_messages,
                                         stored = None\<rparr>
                                    | Inr u \<Rightarrow>
                                        \<lparr>state = st2\<lparr>history := updatedHistory, status := completed,
                                                      results := allResults, imageProgress := None\<rparr>,
                                         calls = sent_messages, stored = Some updatedHistory\<rparr>)))))"

definition reset :: "SyncState \<Rightarrow> outcome" where
  "reset st =
     \<lparr>state = st\<lparr>status := idle, results := [], error := None, imageProgress := None\<rparr>,
      calls = [CLEAR_SYNC_STATE], stored = None\<rparr>"

definition updateProgress :: "SyncResult \<Rightarrow> SyncState \<Rightarrow> SyncState" where
  "updateProgress r st = st\<lparr>results := results st @ [r]\<rparr>"

definition getCMSIcon :: "string \<Rightarrow> string" where
  "getCMSIcon t =
     (if t = ''wordpress'' then ''https://s.w.org/style/images/about/WordPress-logotype-simplified.png''
      else if t = ''typecho'' then ''/assets/typecho.ico''
      else if t = ''metaweblog'' then ''https://www.cnblogs.com/favicon.ico''
      else ''/assets/icon-48.png'')"

definition cmsPlatform :: "CmsAccount \<Rightarrow> Platform" where
  "cmsPlatform a =
     \<lparr>p_id = acc_id a, p_name = acc_name a, icon = getCMSIcon (acc_type a), homepage = acc_url a,
      isAuthenticated = True, username = acc_username a, avatar = None, sourceType = cms,
      cmsType = Some (acc_type a)\<rparr>"

text \<open>\<open>loadSelectedPlatforms\<close>: a failed read, a missing key and an empty value all give \<open>null\<close>
  or a list that \<open>loadPlatforms\<close> treats alike.\<close>

definition loadSelectedPlatforms :: "chrome \<Rightarrow> string list option" where
  "loadSelectedPlatforms env =
     (case storage_get_selectedPlatforms env of Inl e \<Rightarrow> None | Inr v \<Rightarrow> v)"

text \<open>
  \<open>loadPlatforms\<close>: while a pass is running or completed only the platform list is
  replaced (by the platforms that are authenticated or connected now); status, results
  and selection stay.
\<close>

definition loadPlatforms :: "chrome \<Rightarrow> SyncState \<Rightarrow> SyncState" where
  "loadPlatforms env st =
     (let preserveStatus = (status st = syncing \<or> status st = completed);
          st0 = (if \<not> preserveStatus then st\<lparr>status := loading\<rparr> else st);
          failed = (\<lambda>e. if \<not> preserveStatus then st0\<lparr>status := idle, error := Some (message e)\<rparr> else st0)
      in
        (case sendMessage env CHECK_ALL_AUTH of
           Inl e \<Rightarrow> failed e
         | Inr platformResponse \<Rightarrow>
             (case storage_get_cmsAccounts env of
                Inl e \<Rightarrow> failed e
              | Inr cmsStorage \<Rightarrow>
                  (case platformResponse of
                     None \<Rightarrow> failed (TypeError MSG_UNDEFINED_RESPONSE)
                   | Some r \<Rightarrow>
                       let dslPlatforms =
                             (case resp_platforms r of
                                None \<Rightarrow> []
                              | Some ps \<Rightarrow> map (\<lambda>p. p\<lparr>sourceType := dsl\<rparr>) (filter isAuthenticated ps));
                           cmsAccounts = (case cmsStorage of None \<Rightarrow> [] | Some accounts \<Rightarrow> accounts);
                           cmsPlatforms = map cmsPlatform (filter isConnected cmsAccounts);
                           allPlatforms = dslPlatforms @ cmsPlatforms;
                           authenticatedIds = map p_id (filter isAuthenticated allPlatforms);
                           selected =
                             (case loadSelectedPlatforms env of
                                None \<Rightarrow> []
                              | Some savedSelections \<Rightarrow> filter (\<lambda>i. i \<in> set authenticatedIds) savedSelections)
                       in
                         if preserveStatus then st0\<lparr>platforms := allPlatforms\<rparr>
                         else st0\<lparr>platforms := allPlatforms, status := idle, selectedPlatforms := selected\<rparr>))))"

subsection \<open>Notions and sample data used by the properties of the orchestrator\<close>

text \<open>
  \<open>published\<close>: the platforms a message asks the background page to publish to.
  \<open>failedPlatformIds\<close>: the platforms of the failed results, as \<open>retryFailed\<close>
  computes them. \<open>pass_throws\<close>: the \<open>try\<close> block of a pass is left with error
  \<open>e\<close>, by the batch call or by the history read; \<open>pass_returns\<close>: neither happens.
\<close>

fun published :: "runtime_message \<Rightarrow> string list" where
  "published (SYNC_ARTICLE a ids skipHistory) = ids"
| "published (SYNC_TO_CMS accountId a) = [accountId]"
| "published CHECK_ALL_AUTH = []"
| "published CLEAR_SYNC_STATE = []"

definition failedPlatformIds :: "SyncState \<Rightarrow> string list" where
  "failedPlatformIds st = map platform (filter (\<lambda>r. \<not> success r) (results st))"



definition sample_article :: Article where
  "sample_article = \<lparr>title = ''T'', content = ''<p>body</p>'', summary = None, cover = None\<rparr>"

definition sample_platform :: "string \<Rightarrow> sourceType \<Rightarrow> Platform" where
  "sample_platform i k =
     \<lparr>p_id = i, p_name = i, icon = [], homepage = [], isAuthenticated = True, username = None,
      avatar = None, sourceType = k, cmsType = None\<rparr>"

definition sample_result :: "string \<Rightarrow> bool \<Rightarrow> SyncResult" where
  "sample_result i ok =
     \<lparr>platform = i, platformName = Some i, success = ok, postUrl = None, draftOnly = None,
      result_error = (if ok then None else Some ''failed'')\<rparr>"

definition sample_history :: "SyncHistoryItem list" where
  "sample_history =
     [\<lparr>h_id = ''2'', h_title = ''T'', h_cover = None, h_timestamp = 2,
       h_results = [sample_result ''weixin'' True, sample_result ''juejin'' False, sample_result ''blog'' False]\<rparr>,
      \<lparr>h_id = ''1'', h_title = ''S'', h_cover = None, h_timestamp = 1, h_results = []\<rparr>]"

text \<open>A completed pass over three platforms: one success, two failures.\<close>

definition sample_completed :: SyncState where
  "sample_completed =
     \<lparr>status = completed, article = Some sample_article,
      platforms = [sample_platform ''weixin'' dsl, sample_platform ''juejin'' dsl, sample_platform ''blog'' cms],
      selectedPlatforms = [''weixin'', ''juejin'', ''blog''],
      results = [sample_result ''weixin'' True, sample_result ''juejin'' False, sample_result ''blog'' False],
      error = None, imageProgress = None, history = sample_history, recovered = False\<rparr>"

text \<open>A background page that publishes everything it is asked to, and one that is unreachable.\<close>

definition chrome_ok :: chrome where
  "chrome_ok =
     \<lparr>sendMessage = (\<lambda>m. case m of
          SYNC_ARTICLE a ids skipHistory \<Rightarrow>
            Inr (Some \<lparr>resp_results = Some (map (\<lambda>i. sample_result i True) ids), resp_success = True,
                      resp_postUrl = None, resp_draftOnly = None, resp_failure = None, resp_platforms = None\<rparr>)
        | SYNC_TO_CMS accountId a \<Rightarrow>
            Inr (Some \<lparr>resp_results = None, resp_success = True, resp_postUrl = Some ''https://blog/1'',
                      resp_draftOnly = Some True, resp_failure = None, resp_platforms = None\<rparr>)
        | CHECK_ALL_AUTH \<Rightarrow>
            Inr (Some \<lparr>resp_results = None, resp_success = True, resp_postUrl = None, resp_draftOnly = None,
                      resp_failure = None, resp_platforms = Some [sample_platform ''weixin'' dsl]\<rparr>)
        | CLEAR_SYNC_STATE \<Rightarrow> Inr None),
      storage_get_syncHistory = Inr (Some sample_history),
      storage_set_syncHistory = (\<lambda>hs. Inr ()),
      storage_get_cmsAccounts = Inr None,
      storage_get_selectedPlatforms = Inr None,
      progress_events = []\<rparr>"

definition chrome_unreachable :: chrome where
  "chrome_unreachable = chrome_ok\<lparr>sendMessage := (\<lambda>m. Inl (Error ''Could not establish connection''))\<rparr>"

lemmas sample_defs = sample_article_def sample_platform_def sample_result_def sample_history_def
  sample_completed_def chrome_ok_def chrome_unreachable_def

definition chrome_expired :: chrome where
  "chrome_expired =
     chrome_ok\<lparr>sendMessage := (\<lambda>m. case m of
          SYNC_ARTICLE a ids skipHistory \<Rightarrow>
            Inr (Some \<lparr>resp_results = Some (map (\<lambda>i. sample_result i (i \<noteq> ''juejin'')) ids),
                      resp_success = True, resp_postUrl = None, resp_draftOnly = None,
                      resp_failure = None, resp_platforms = None\<rparr>)
        | CHECK_ALL_AUTH \<Rightarrow>
            Inr (Some \<lparr>resp_results = None, resp_success = True, resp_postUrl = None, resp_draftOnly = None,
                      resp_failure = None,
                      resp_platforms = Some [sample_platform ''weixin'' dsl,
                                             (sample_platform ''juejin'' dsl)\<lparr>isAuthenticated := False\<rparr>]\<rparr>)
        | _ \<Rightarrow> Inr None),
       storage_get_syncHistory :=
         Inr (Some [\<lparr>h_id = ''2'', h_title = ''T'', h_cover = None, h_timestamp = 2,
                     h_results = [sample_result ''weixin'' True, sample_result ''juejin'' False]\<rparr>])\<rparr>"

definition sample_idle :: SyncState where
  "sample_idle =
     \<lparr>status = idle, article = Some sample_article,
      platforms = [sample_platform ''weixin'' dsl, sample_platform ''juejin'' dsl],
      selectedPlatforms = [''weixin'', ''juejin''],
      results = [], error = None, imageProgress = None, history = [], recovered = False\<rparr>"

section \<open>Checksum utility (crc32)\<close>

text \<open>
  JavaScript's bitwise operators work on 32-bit integers; \<open>>>>\<close> is the logical
  shift. A 32-bit word models the value of \<open>c\<close> and \<open>crc\<close>, a \<open>Uint8Array\<close>
  is a list of 8-bit words, and the module variable \<open>crc32Table\<close> (\<open>null\<close> until
  the first call) is threaded through as an optional list.
\<close>

type_synonym u32 = "32 word"
type_synonym u8 = "8 word"

definition crc_shift :: "u32 \<Rightarrow> u32" where
  "crc_shift c = (if c AND 1 \<noteq> 0 then 0xEDB88320 XOR drop_bit 1 c else drop_bit 1 c)"

definition table_entry :: "nat \<Rightarrow> u32" where
  "table_entry i = (crc_shift ^^ 8) (of_nat i)"

definition buildCRC32Table :: "u32 list" where
  "buildCRC32Table = map table_entry [0..<256]"

fun toString16 :: "nat \<Rightarrow> string" where
  "toString16 n =
     (if n < 16 then [''0123456789abcdef'' ! n]
      else toString16 (n div 16) @ [''0123456789abcdef'' ! (n mod 16)])"


definition getCRC32Table :: "u32 list option \<Rightarrow> u32 list \<times> u32 list option" where
  "getCRC32Table crc32Table =
     (case crc32Table of
        Some t \<Rightarrow> (t, Some t)
      | None \<Rightarrow> (buildCRC32Table, Some buildCRC32Table))"

definition crc_update :: "u32 list \<Rightarrow> u32 \<Rightarrow> u8 \<Rightarrow> u32" where
  "crc_update table crc b = drop_bit 8 crc XOR table ! unat ((crc XOR ucast b) AND 0xFF)"

definition padStart :: "nat \<Rightarrow> char \<Rightarrow> string \<Rightarrow> string" where
  "padStart n c s = replicate (n - length s) c @ s"

definition crc32 :: "u32 list option \<Rightarrow> u8 list \<Rightarrow> string \<times> u32 list option" where
  "crc32 crc32Table data =
     (let (table, cache) = getCRC32Table crc32Table;
          crc = foldl (crc_update table) 0xFFFFFFFF data
      in (padStart 8 (CHR ''0'') (toString16 (unat (crc XOR 0xFFFFFFFF))), cache))"

definition crc32_iso_hdlc_bit :: "u32 \<Rightarrow> u32" where
  "crc32_iso_hdlc_bit c = (if bit c 0 then drop_bit 1 c XOR 0xEDB88320 else drop_bit 1 c)"

definition crc32_iso_hdlc_byte :: "u32 \<Rightarrow> u8 \<Rightarrow> u32" where
  "crc32_iso_hdlc_byte crc b = (crc32_iso_hdlc_bit ^^ 8) (crc XOR ucast b)"

definition crc32_iso_hdlc :: "u8 list \<Rightarrow> u32" where
  "crc32_iso_hdlc data = foldl crc32_iso_hdlc_byte 0xFFFFFFFF data XOR 0xFFFFFFFF"

text \<open>
  The reference the checksum is compared with, written from the parameters of
  CRC-32/ISO-HDLC: reflected polynomial \<open>0xEDB88320\<close>, initial value
  \<open>0xFFFFFFFF\<close>, final XOR \<open>0xFFFFFFFF\<close>, one bit at a time, least significant
  bit first. \<open>hex_value\<close> is the number a hexadecimal string denotes.
\<close>

definition hex_digit_value :: "char \<Rightarrow> nat" where
  "hex_digit_value c =
     (if of_char c < (58 :: nat) then of_char c - 48 else of_char c - 87)"

definition hex_value :: "string \<Rightarrow> nat" where
  "hex_value s = foldl (\<lambda>a c. 16 * a + hex_digit_value c) 0 s"

section \<open>JavaScript strings and URI encoding\<close>

text \<open>
  Where the code looks at single characters (regular expressions, percent-encoding), a
  JavaScript string is the list of its UTF-16 code units. \<open>js\<close> turns an ASCII literal
  into such a string.
\<close>

type_synonym jsstring = "nat list"

definition js :: "string \<Rightarrow> jsstring" where
  "js s = map of_char s"

text \<open>
  \<open>encodeURIComponent\<close>: letters, digits and \<open>- _ . ! ~ * ' ( )\<close> are kept; any other
  code point is written as the percent-encoded octets of its UTF-8 form (hexadecimal in
  upper case); a surrogate that is not half of a pair makes the call throw \<open>URIError\<close>.
\<close>

definition uriUnreserved :: "nat \<Rightarrow> bool" where
  "uriUnreserved c =
     ((65 \<le> c \<and> c \<le> 90) \<or> (97 \<le> c \<and> c \<le> 122) \<or> (48 \<le> c \<and> c \<le> 57)
      \<or> c \<in> {45, 95, 46, 33, 126, 42, 39, 40, 41})"

definition utf8 :: "nat \<Rightarrow> nat list" where
  "utf8 cp =
     (if cp < 0x80 then [cp]
      else if cp < 0x800 then [0xC0 + cp div 64, 0x80 + cp mod 64]
      else if cp < 0x10000 then [0xE0 + cp div 4096, 0x80 + (cp div 64) mod 64, 0x80 + cp mod 64]
      else [0xF0 + cp div 262144, 0x80 + (cp div 4096) mod 64, 0x80 + (cp div 64) mod 64,
            0x80 + cp mod 64])"

definition percent :: "nat \<Rightarrow> jsstring" where
  "percent octet = [37, js ''0123456789ABCDEF'' ! (octet div 16), js ''0123456789ABCDEF'' ! (octet mod 16)]"

definition URI_MALFORMED :: js_error where
  "URI_MALFORMED = URIError ''URI malformed''"

fun encodeURIComponent :: "jsstring \<Rightarrow> js_error + jsstring" where
  "encodeURIComponent [] = Inr []"
| "encodeURIComponent (c # cs) =
     (if uriUnreserved c then
        (case encodeURIComponent cs of Inl e \<Rightarrow> Inl e | Inr rest \<Rightarrow> Inr (c # rest))
      else if 0xDC00 \<le> c \<and> c \<le> 0xDFFF then Inl URI_MALFORMED
      else if 0xD800 \<le> c \<and> c \<le> 0xDBFF then
        (case cs of
           [] \<Rightarrow> Inl URI_MALFORMED
         | d # ds \<Rightarrow>
             if 0xDC00 \<le> d \<and> d \<le> 0xDFFF then
               (case encodeURIComponent ds of
                  Inl e \<Rightarrow> Inl e
                | Inr rest \<Rightarrow>
                    Inr (concat (map percent (utf8 (0x10000 + (c - 0xD800) * 1024 + (d - 0xDC00)))) @ rest))
             else Inl URI_MALFORMED)
      else
        (case encodeURIComponent cs of
           Inl e \<Rightarrow> Inl e
         | Inr rest \<Rightarrow> Inr (concat (map percent (utf8 c)) @ rest)))"



section \<open>Weixin adapter: the formula pipeline\<close>






text \<open>
  The regular expressions \<open>/\$\$([^$]+)\$\$/g\<close> (\<open>n = 2\<close>) and \<open>/\$([^$]+)\$/g\<close>
  (\<open>n = 1\<close>). \<open>match_delimited n s\<close> is the match anchored at the start of \<open>s\<close>:
  \<open>n\<close> dollar signs, the longest non-empty run of other characters, \<open>n\<close> dollar signs;
  it gives the captured run and what follows the match. (The run is greedy and what
  must follow it is a dollar sign, so no shorter run can match.) \<open>replace_delimited\<close>
  is \<open>String.prototype.replace\<close> with that expression and a callback: matches are
  found from left to right, the search resuming after each match, and a callback that
  throws ends the call.
\<close>

definition dollars :: "nat \<Rightarrow> jsstring" where
  "dollars n = replicate n 36"


















section \<open>Request signer: the canonical query string\<close>

text \<open>
  The entries are the (name, value) pairs \<open>URLSearchParams\<close> yields for the query
  string, in its order. They are sorted with
  \<open>sort((a, b) => a[0].localeCompare(b[0]))\<close>: \<open>Array.prototype.sort\<close> is stable,
  and \<open>localeCompare\<close> compares collation keys, so the result is the stable sort by
  the collation key of the name. The collation is the platform's and is a parameter;
  \<open>code_unit_order\<close> is the plain order on code units, which agrees with it on
  lower-case ASCII letters. Each pair is then written
  \<open>encodeURIComponent(k)=encodeURIComponent(v)\<close> and the pairs are joined with \<open>&\<close>.
\<close>

definition sortedParams ::
  "(jsstring \<Rightarrow> 'k::linorder) \<Rightarrow> (jsstring \<times> jsstring) list \<Rightarrow> (jsstring \<times> jsstring) list" where
  "sortedParams collation_key entries = sort_key (\<lambda>p. collation_key (fst p)) entries"

fun encode_params :: "(jsstring \<times> jsstring) list \<Rightarrow> js_error + jsstring list" where
  "encode_params [] = Inr []"
| "encode_params ((k, v) # ps) =
     (case encodeURIComponent k of
        Inl e \<Rightarrow> Inl e
      | Inr ek \<Rightarrow>
          (case encodeURIComponent v of
             Inl e \<Rightarrow> Inl e
           | Inr ev \<Rightarrow>
               (case encode_params ps of
                  Inl e \<Rightarrow> Inl e
                | Inr encoded \<Rightarrow> Inr ((ek @ js ''='' @ ev) # encoded))))"

fun join :: "jsstring \<Rightarrow> jsstring list \<Rightarrow> jsstring" where
  "join sep [] = []"
| "join sep [x] = x"
| "join sep (x # y # ys) = x @ sep @ join sep (y # ys)"

definition canonicalQueryString ::
  "(jsstring \<Rightarrow> 'k::linorder) \<Rightarrow> (jsstring \<times> jsstring) list \<Rightarrow> js_error + jsstring" where
  "canonicalQueryString collation_key entries =
     (case encode_params (sortedParams collation_key entries) of
        Inl e \<Rightarrow> Inl e
      | Inr encoded \<Rightarrow> Inr (join (js ''&'') encoded))"

definition code_unit_order :: "jsstring \<Rightarrow> nat list" where
  "code_unit_order k = k"

section \<open>Platform adapters\<close>

text \<open>
  Values decoded from JSON. Reading a property of \<open>null\<close> (or of \<open>undefined\<close>)
  throws; reading one that an object does not have, or any of the properties used here
  on a string, number, boolean or array, gives \<open>undefined\<close> (\<open>None\<close>).
  \<open>get_prop_optional\<close> is the optional chain \<open>v?.k\<close>; \<open>truthy\<close> is JavaScript's
  truthiness.
\<close>

datatype json = JNull | JBool bool | JNum int | JStr string | JArr "json list" | JObj "(string \<times> json) list"

definition MSG_NULL_READ :: string where
  "MSG_NULL_READ = ''Cannot read properties of null''"

definition get_prop :: "json \<Rightarrow> string \<Rightarrow> js_error + json option" where
  "get_prop v k =
     (case v of
        JNull \<Rightarrow> Inl (TypeError MSG_NULL_READ)
      | JObj members \<Rightarrow> Inr (map_of members k)
      | _ \<Rightarrow> Inr None)"

definition get_prop_of :: "json option \<Rightarrow> string \<Rightarrow> js_error + json option" where
  "get_prop_of v k =
     (case v of None \<Rightarrow> Inl (TypeError MSG_UNDEFINED_RESPONSE) | Some w \<Rightarrow> get_prop w k)"

definition get_prop_optional :: "json option \<Rightarrow> string \<Rightarrow> json option" where
  "get_prop_optional v k =
     (case v of
        None \<Rightarrow> None
      | Some JNull \<Rightarrow> None
      | Some (JObj members) \<Rightarrow> map_of members k
      | Some _ \<Rightarrow> None)"

definition truthy :: "json option \<Rightarrow> bool" where
  "truthy v =
     (case v of
        None \<Rightarrow> False
      | Some JNull \<Rightarrow> False
      | Some (JBool b) \<Rightarrow> b
      | Some (JNum n) \<Rightarrow> n \<noteq> 0
      | Some (JStr s) \<Rightarrow> s \<noteq> []
      | Some _ \<Rightarrow> True)"

text \<open>
  The injected capability object: \<open>fetch\<close> settles with a response or rejects, and so
  does every body reader of a response; \<open>headerRules\<close> (the header-override mechanism)
  may be absent.
\<close>

datatype blob = Blob string

datatype body = JsonBody json | FormFile blob

record HttpRequest =
  req_url :: string
  req_method :: string
  req_headers :: "(string \<times> string) list"
  req_body :: "body option"

record HttpResponse =
  http_ok :: bool
  http_status :: nat
  http_header :: "string \<Rightarrow> string option"
  http_text :: "js_error + string"
  http_json :: "js_error + json"
  http_blob :: "js_error + blob"

record HeaderRule =
  urlFilter :: string
  rule_headers :: "(string \<times> string) list"

record HeaderRules =
  rules_add :: "HeaderRule \<Rightarrow> js_error + string"
  rules_remove :: "string \<Rightarrow> js_error + unit"

record Runtime =
  fetch :: "HttpRequest \<Rightarrow> js_error + HttpResponse"
  headerRules :: "HeaderRules option"

text \<open>
  \<open>AuthResult\<close>. Identity fields and the error text are whatever values the
  destination sent; an absent field is \<open>None\<close>.
\<close>

record AuthResult =
  a_isAuthenticated :: bool
  a_userId :: "json option"
  a_username :: "json option"
  a_avatar :: "json option"
  a_error :: "json option"

definition not_authenticated :: AuthResult where
  "not_authenticated =
     \<lparr>a_isAuthenticated = False, a_userId = None, a_username = None, a_avatar = None, a_error = None\<rparr>"

definition auth_failed :: "js_error \<Rightarrow> AuthResult" where
  "auth_failed e = not_authenticated\<lparr>a_error := Some (JStr (message e))\<rparr>"

subsection \<open>Juejin\<close>

definition juejin_user_request :: HttpRequest where
  "juejin_user_request =
     \<lparr>req_url = ''https://api.juejin.cn/user_api/v1/user/get'', req_method = ''GET'',
      req_headers = [], req_body = None\<rparr>"

definition juejin_checkAuth :: "Runtime \<Rightarrow> js_error + AuthResult" where
  "juejin_checkAuth rt =
     (case fetch rt juejin_user_request of
        Inl e \<Rightarrow> Inr (auth_failed e)
      | Inr response \<Rightarrow>
          (case http_json response of
             Inl e \<Rightarrow> Inr (auth_failed e)
           | Inr data \<Rightarrow>
               (case get_prop data ''data'' of
                  Inl e \<Rightarrow> Inr (auth_failed e)
                | Inr user \<Rightarrow>
                    if truthy (get_prop_optional user ''user_id'')
                    then Inr \<lparr>a_isAuthenticated = True,
                              a_userId = get_prop_optional user ''user_id'',
                              a_username = get_prop_optional user ''user_name'',
                              a_avatar = get_prop_optional user ''avatar_large'',
                              a_error = None\<rparr>
                    else Inr not_authenticated)))"

record JuejinAdapter =
  cachedCsrfToken :: "string option"

text \<open>\<open>String.prototype.split\<close> on a one-character separator.\<close>

fun split_on :: "char \<Rightarrow> string \<Rightarrow> string list" where
  "split_on sep [] = [[]]"
| "split_on sep (c # cs) =
     (if c = sep then [] # split_on sep cs
      else (case split_on sep cs of [] \<Rightarrow> [[c]] | part # parts \<Rightarrow> (c # part) # parts))"

definition juejin_token_request :: HttpRequest where
  "juejin_token_request =
     \<lparr>req_url = ''https://api.juejin.cn/user_api/v1/sys/token'', req_method = ''HEAD'',
      req_headers = [(''x-secsdk-csrf-request'', ''1''), (''x-secsdk-csrf-version'', ''1.2.10'')],
      req_body = None\<rparr>"

text \<open>
  \<open>getCsrfToken\<close>: a cached non-empty token is returned; otherwise the token is
  requested (\<open>requestCsrfToken\<close> is the rest of the method), and cached on success.
\<close>

definition requestCsrfToken :: "Runtime \<Rightarrow> JuejinAdapter \<Rightarrow> (js_error + string) \<times> JuejinAdapter" where
  "requestCsrfToken rt this =
     (case fetch rt juejin_token_request of
        Inl e \<Rightarrow> (Inl e, this)
      | Inr response \<Rightarrow>
          (case http_header response ''x-ware-csrf-token'' of
             None \<Rightarrow> (Inl (Error ''Failed to get CSRF token''), this)
           | Some wareToken \<Rightarrow>
               if wareToken = [] then (Inl (Error ''Failed to get CSRF token''), this)
               else
                 (case split_on (CHR '','') wareToken of
                    first # second # others \<Rightarrow> (Inr second, this\<lparr>cachedCsrfToken := Some second\<rparr>)
                  | _ \<Rightarrow> (Inl (Error ''Invalid CSRF token format''), this))))"

definition getCsrfToken :: "Runtime \<Rightarrow> JuejinAdapter \<Rightarrow> (js_error + string) \<times> JuejinAdapter" where
  "getCsrfToken rt this =
     (case cachedCsrfToken this of
        None \<Rightarrow> requestCsrfToken rt this
      | Some cached \<Rightarrow> if cached \<noteq> [] then (Inr cached, this) else requestCsrfToken rt this)"

text \<open>
  \<open>uploadImageBinaryInternal\<close>. \<open>toString\<close> is JavaScript's conversion of a value to
  a string, used for the text of the error that is thrown.
\<close>

definition juejin_upload_failure :: "(json \<Rightarrow> string) \<Rightarrow> json \<Rightarrow> string" where
  "juejin_upload_failure toString data =
     (case get_prop_optional (Some data) ''err_msg'' of
        None \<Rightarrow> ''Failed to upload image''
      | Some m \<Rightarrow> if truthy (Some m) then toString m else ''Failed to upload image'')"

definition juejin_upload_request :: "string \<Rightarrow> blob \<Rightarrow> HttpRequest" where
  "juejin_upload_request csrfToken file =
     \<lparr>req_url = ''https://api.juejin.cn/content_api/v1/upload/image'', req_method = ''POST'',
      req_headers = [(''x-secsdk-csrf-token'', csrfToken)], req_body = Some (FormFile file)\<rparr>"

definition uploadImageBinaryInternal ::
  "(json \<Rightarrow> string) \<Rightarrow> Runtime \<Rightarrow> JuejinAdapter \<Rightarrow> blob \<Rightarrow> (js_error + json) \<times> JuejinAdapter" where
  "uploadImageBinaryInternal toString rt this file =
     (case getCsrfToken rt this of
        (Inl e, this1) \<Rightarrow> (Inl e, this1)
      | (Inr csrfToken, this1) \<Rightarrow>
          (case fetch rt (juejin_upload_request csrfToken file) of
             Inl e \<Rightarrow> (Inl e, this1)
           | Inr response \<Rightarrow>
               (case http_json response of
                  Inl e \<Rightarrow> (Inl e, this1)
                | Inr data \<Rightarrow>
                    (case get_prop data ''data'' of
                       Inl e \<Rightarrow> (Inl e, this1)
                     | Inr uploaded \<Rightarrow>
                         (case get_prop_optional uploaded ''url'' of
                            None \<Rightarrow> (Inl (Error (juejin_upload_failure toString data)), this1)
                          | Some u \<Rightarrow>
                              if truthy (Some u) then (Inr u, this1)
                              else (Inl (Error (juejin_upload_failure toString data)), this1))))))"


text \<open>
  \<open>uploadImageByUrl\<close>: the \<open>try\<close> block (a data URI is fetched locally and uploaded
  as a file, any other source goes to the URL-upload endpoint), then the method with its
  \<open>catch\<close>, which returns the source.
\<close>

record ImageUploadResult =
  url :: json

definition juejin_urlSave_request :: "string \<Rightarrow> HttpRequest" where
  "juejin_urlSave_request src =
     \<lparr>req_url = ''https://juejin.cn/image/urlSave'', req_method = ''POST'',
      req_headers = [(''Content-Type'', ''application/json'')],
      req_body = Some (JsonBody (JObj [(''url'', JStr src)]))\<rparr>"

definition uploadImageByUrl_try ::
  "(json \<Rightarrow> string) \<Rightarrow> (string \<Rightarrow> js_error + HttpResponse) \<Rightarrow> Runtime \<Rightarrow> JuejinAdapter \<Rightarrow> string \<Rightarrow>
   (js_error + ImageUploadResult) \<times> JuejinAdapter" where
  "uploadImageByUrl_try toString global_fetch rt this src =
     (if take 5 src = ''data:'' then
        (case global_fetch src of
           Inl e \<Rightarrow> (Inl e, this)
         | Inr r \<Rightarrow>
             (case http_blob r of
                Inl e \<Rightarrow> (Inl e, this)
              | Inr file \<Rightarrow>
                  (case uploadImageBinaryInternal toString rt this file of
                     (Inl e, this1) \<Rightarrow> (Inl e, this1)
                   | (Inr u, this1) \<Rightarrow> (Inr \<lparr>url = u\<rparr>, this1))))
      else
        (case fetch rt (juejin_urlSave_request src) of
           Inl e \<Rightarrow> (Inl e, this)
         | Inr response \<Rightarrow>
             (case http_json response of
                Inl e \<Rightarrow> (Inl e, this)
              | Inr data \<Rightarrow>
                  (case get_prop data ''err_no'' of
                     Inl e \<Rightarrow> (Inl e, this)
                   | Inr err_no \<Rightarrow>
                       if truthy err_no \<and> err_no \<noteq> Some (JNum 0) then (Inr \<lparr>url = JStr src\<rparr>, this)
                       else
                         (case get_prop_optional (Some data) ''data'' of
                            None \<Rightarrow> (Inr \<lparr>url = JStr src\<rparr>, this)
                          | Some d \<Rightarrow>
                              if truthy (Some d) then (Inr \<lparr>url = d\<rparr>, this)
                              else (Inr \<lparr>url = JStr src\<rparr>, this))))))"

definition uploadImageByUrl ::
  "(json \<Rightarrow> string) \<Rightarrow> (string \<Rightarrow> js_error + HttpResponse) \<Rightarrow> Runtime \<Rightarrow> JuejinAdapter \<Rightarrow> string \<Rightarrow>
   (js_error + ImageUploadResult) \<times> JuejinAdapter" where
  "uploadImageByUrl toString global_fetch rt this src =
     (case uploadImageByUrl_try toString global_fetch rt this src of
        (Inl e, this1) \<Rightarrow> (Inr \<lparr>url = JStr src\<rparr>, this1)
      | (Inr r, this1) \<Rightarrow> (Inr r, this1))"

subsection \<open>Imooc\<close>

record ImoocAdapter =
  headerRuleId :: "string option"

definition imooc_header_rule :: HeaderRule where
  "imooc_header_rule =
     \<lparr>urlFilter = ''*://www.imooc.com/article/*'',
      rule_headers = [(''Origin'', ''https://www.imooc.com''), (''Referer'', ''https://www.imooc.com/'')]\<rparr>"

definition addHeaderRules :: "Runtime \<Rightarrow> ImoocAdapter \<Rightarrow> (js_error + unit) \<times> ImoocAdapter" where
  "addHeaderRules rt this =
     (case headerRules rt of
        None \<Rightarrow> (Inr (), this)
      | Some rules \<Rightarrow>
          (case rules_add rules imooc_header_rule of
             Inl e \<Rightarrow> (Inl e, this)
           | Inr rule_id \<Rightarrow> (Inr (), this\<lparr>headerRuleId := Some rule_id\<rparr>)))"

definition removeHeaderRules :: "Runtime \<Rightarrow> ImoocAdapter \<Rightarrow> (js_error + unit) \<times> ImoocAdapter" where
  "removeHeaderRules rt this =
     (case headerRules rt of
        None \<Rightarrow> (Inr (), this)
      | Some rules \<Rightarrow>
          (case headerRuleId this of
             None \<Rightarrow> (Inr (), this)
           | Some rule_id \<Rightarrow>
               if rule_id = [] then (Inr (), this)
               else
                 (case rules_remove rules rule_id of
                    Inl e \<Rightarrow> (Inl e, this)
                  | Inr u \<Rightarrow> (Inr (), this\<lparr>headerRuleId := None\<rparr>))))"

text \<open>\<open>String.prototype.replace\<close> with a string pattern: the first occurrence only.\<close>

fun replace_first :: "string \<Rightarrow> string \<Rightarrow> string \<Rightarrow> string" where
  "replace_first pat rep [] = (if pat = [] then rep else [])"
| "replace_first pat rep (c # cs) =
     (if take (length pat) (c # cs) = pat then rep @ drop (length pat) (c # cs)
      else c # replace_first pat rep cs)"

definition imooc_card_request :: HttpRequest where
  "imooc_card_request =
     \<lparr>req_url = ''https://www.imooc.com/u/card'', req_method = ''GET'', req_headers = [],
      req_body = None\<rparr>"

definition MSG_NOT_LOGGED_IN :: string where
  "MSG_NOT_LOGGED_IN = map char_of [230, 156, 170, 231, 153, 187, 229, 189, 149 :: nat]"

text \<open>
  \<open>checkAuth\<close> of the Imooc adapter: the \<open>try\<close> block, then the method with its
  \<open>catch\<close>, which awaits \<open>removeHeaderRules\<close> before it returns. \<open>JSON_parse\<close> is
  \<open>JSON.parse\<close>.
\<close>

definition imooc_checkAuth_try ::
  "(string \<Rightarrow> js_error + json) \<Rightarrow> Runtime \<Rightarrow> ImoocAdapter \<Rightarrow> (js_error + AuthResult) \<times> ImoocAdapter" where
  "imooc_checkAuth_try JSON_parse rt this =
     (case addHeaderRules rt this of
        (Inl e, this1) \<Rightarrow> (Inl e, this1)
      | (Inr u, this1) \<Rightarrow>
          (case fetch rt imooc_card_request of
             Inl e \<Rightarrow> (Inl e, this1)
           | Inr response \<Rightarrow>
               (case http_text response of
                  Inl e \<Rightarrow> (Inl e, this1)
                | Inr body_text \<Rightarrow>
                    (case JSON_parse (replace_first ''})'' ''}'' (replace_first ''jsonpcallback('' [] body_text)) of
                       Inl e \<Rightarrow> (Inl e, this1)
                     | Inr result \<Rightarrow>
                         (case removeHeaderRules rt this1 of
                            (Inl e, this2) \<Rightarrow> (Inl e, this2)
                          | (Inr u, this2) \<Rightarrow>
                              (case get_prop result ''result'' of
                                 Inl e \<Rightarrow> (Inl e, this2)
                               | Inr r \<Rightarrow>
                                   if r \<noteq> Some (JNum 0) then
                                     (Inr (not_authenticated
                                        \<lparr>a_error :=
                                           (if truthy (get_prop_optional (Some result) ''msg'')
                                            then get_prop_optional (Some result) ''msg''
                                            else Some (JStr MSG_NOT_LOGGED_IN))\<rparr>), this2)
                                   else
                                     (case get_prop_of (get_prop_optional (Some result) ''data'') ''uid'' of
                                        Inl e \<Rightarrow> (Inl e, this2)
                                      | Inr uid \<Rightarrow>
                                          (Inr \<lparr>a_isAuthenticated = True, a_userId = uid,
                                                 a_username = get_prop_optional (get_prop_optional (Some result) ''data'') ''nickname'',
                                                 a_avatar = get_prop_optional (get_prop_optional (Some result) ''data'') ''img'',
                                                 a_error = None\<rparr>, this2))))))))"

definition imooc_checkAuth ::
  "(string \<Rightarrow> js_error + json) \<Rightarrow> Runtime \<Rightarrow> ImoocAdapter \<Rightarrow> (js_error + AuthResult) \<times> ImoocAdapter" where
  "imooc_checkAuth JSON_parse rt this =
     (case imooc_checkAuth_try JSON_parse rt this of
        (Inr r, this1) \<Rightarrow> (Inr r, this1)
      | (Inl e, this1) \<Rightarrow>
          (case removeHeaderRules rt this1 of
             (Inl e', this2) \<Rightarrow> (Inl e', this2)
           | (Inr u, this2) \<Rightarrow> (Inr (auth_failed e), this2)))"

subsection \<open>Weixin\<close>

text \<open>
  \<open>checkAuth\<close> of the Weixin adapter. The seven regular expressions are named;
  \<open>html_match p html\<close> is the first capture group of \<open>html.match(p)\<close>, \<open>None\<close>
  when there is no match. \<open>now\<close> is the value of \<open>Date.now()\<close>, in milliseconds.
  The server time is kept as the expression that computes it: \<open>NumberOf d\<close> is
  \<open>Number(d)\<close> for the matched digits, and \<open>DividedBy now 1000\<close> is the quotient
  \<open>Date.now() / 1000\<close>, seconds with a fraction.
\<close>

datatype weixin_pattern =
  TokenPattern | TicketPattern | UserNamePattern | NickNamePattern | TimePattern | HeadImgPattern
  | AvatarPattern

datatype svr_time = NumberOf string | DividedBy nat nat

record WeixinMeta =
  wx_token :: string
  userName :: string
  nickName :: string
  ticket :: string
  svrTime :: svr_time
  wx_avatar :: string

record WeixinAdapter =
  weixinMeta :: "WeixinMeta option"

definition weixin_home_request :: HttpRequest where
  "weixin_home_request =
     \<lparr>req_url = ''https://mp.weixin.qq.com/'', req_method = ''GET'', req_headers = [], req_body = None\<rparr>"

definition or_empty :: "string option \<Rightarrow> string" where
  "or_empty m = (case m of None \<Rightarrow> [] | Some s \<Rightarrow> s)"

definition https_avatar :: "string \<Rightarrow> string" where
  "https_avatar a = (if take 7 a = ''http://'' then replace_first ''http://'' ''https://'' a else a)"

definition weixin_checkAuth_try ::
  "(weixin_pattern \<Rightarrow> string \<Rightarrow> string option) \<Rightarrow> nat \<Rightarrow> Runtime \<Rightarrow> WeixinAdapter \<Rightarrow>
   (js_error + AuthResult) \<times> WeixinAdapter" where
  "weixin_checkAuth_try html_match now rt this =
     (case fetch rt weixin_home_request of
        Inl e \<Rightarrow> (Inl e, this)
      | Inr response \<Rightarrow>
          (case http_text response of
             Inl e \<Rightarrow> (Inl e, this)
           | Inr html \<Rightarrow>
               (case html_match TokenPattern html of
                  None \<Rightarrow> (Inr not_authenticated, this)
                | Some tok \<Rightarrow>
                    let meta =
                          \<lparr>wx_token = tok,
                           userName = or_empty (html_match UserNamePattern html),
                           nickName = or_empty (html_match NickNamePattern html),
                           ticket = or_empty (html_match TicketPattern html),
                           svrTime = (case html_match TimePattern html of
                                        Some digits \<Rightarrow> NumberOf digits
                                      | None \<Rightarrow> DividedBy now 1000),
                           wx_avatar = https_avatar
                             (case html_match AvatarPattern html of
                                Some a \<Rightarrow> a
                              | None \<Rightarrow> or_empty (html_match HeadImgPattern html))\<rparr>
                    in (Inr \<lparr>a_isAuthenticated = True, a_userId = Some (JStr (userName meta)),
                              a_username = Some (JStr (nickName meta)),
                              a_avatar = Some (JStr (wx_avatar meta)), a_error = None\<rparr>,
                        this\<lparr>weixinMeta := Some meta\<rparr>))))"

definition weixin_checkAuth ::
  "(weixin_pattern \<Rightarrow> string \<Rightarrow> string option) \<Rightarrow> nat \<Rightarrow> Runtime \<Rightarrow> WeixinAdapter \<Rightarrow>
   (js_error + AuthResult) \<times> WeixinAdapter" where
  "weixin_checkAuth html_match now rt this =
     (case weixin_checkAuth_try html_match now rt this of
        (Inr r, this1) \<Rightarrow> (Inr r, this1)
      | (Inl e, this1) \<Rightarrow> (Inr (auth_failed e), this1))"

subsection \<open>Sample runtimes used by the properties of the adapters\<close>

text \<open>
  \<open>offline_runtime\<close>: every request fails, header rules can be added but their
  removal fails. \<open>busy_runtime\<close>: every request is answered with a business error.
  \<open>local_fetch\<close>: the global \<open>fetch\<close> on a data URI.
\<close>

definition failing_rules :: HeaderRules where
  "failing_rules =
     \<lparr>rules_add = (\<lambda>r. Inr ''rule-1''), rules_remove = (\<lambda>i. Inl (Error ''rule removal failed''))\<rparr>"

definition offline_runtime :: Runtime where
  "offline_runtime = \<lparr>fetch = (\<lambda>r. Inl (TypeError ''Failed to fetch'')), headerRules = Some failing_rules\<rparr>"

definition no_json :: "string \<Rightarrow> js_error + json" where
  "no_json s = Inl (SyntaxError ''Unexpected end of JSON input'')"

definition sample_data_uri :: string where
  "sample_data_uri = ''data:image/png;base64,iVBORw0KGgo=''"

definition local_fetch :: "string \<Rightarrow> js_error + HttpResponse" where
  "local_fetch src =
     Inr \<lparr>http_ok = True, http_status = 200, http_header = (\<lambda>h. None),
          http_text = Inr src, http_json = Inl (SyntaxError ''Unexpected token''),
          http_blob = Inr (Blob src)\<rparr>"

definition plain_toString :: "json \<Rightarrow> string" where
  "plain_toString v = (case v of JStr s \<Rightarrow> s | _ \<Rightarrow> ''[object]'')"

definition busy_runtime :: Runtime where
  "busy_runtime =
     \<lparr>fetch = (\<lambda>r. Inr \<lparr>http_ok = True, http_status = 200, http_header = (\<lambda>h. None),
                        http_text = Inr [],
                        http_json = Inr (JObj [(''err_no'', JNum 2), (''err_msg'', JStr ''busy'')]),
                        http_blob = Inl (TypeError ''no body'')\<rparr>),
      headerRules = None\<rparr>"

section \<open>Properties of the control channel client\<close>

lemma backoff_sequence:
  "map (\<lambda>n. min (minReconnectInterval * 2 ^ n) maxReconnectInterval) [0, 1, 2, 3, 4, 5, 6]
     = [1000, 2000, 4000, 8000, 16000, 30000, 30000]"
  by (simp add: minReconnectInterval_def maxReconnectInterval_def)

text \<open>
  Claim C3. When no timer is pending and the attempt counter \<open>n\<close> is below the maximum,
  \<open>scheduleReconnect\<close> arms a timer of \<open>min (1000 * 2 ^ n) 30000\<close> ms and increments
  the counter; for \<open>n = 0..6\<close> the delays are 1000, 2000, 4000, 8000, 16000, 30000,
  30000. While a timer is pending nothing is scheduled, and once the counter has reached
  100 nothing is scheduled; \<open>resetReconnect\<close> brings the counter back below the maximum.
\<close>

theorem scheduleReconnect_backoff:
  "(reconnectTimer c = None \<and> reconnectAttempts c < 100 \<longrightarrow>
      reconnectTimer (scheduleReconnect c) = Some (min (1000 * 2 ^ reconnectAttempts c) 30000)
      \<and> reconnectAttempts (scheduleReconnect c) = reconnectAttempts c + 1)
   \<and> map (\<lambda>n. reconnectTimer (scheduleReconnect (c\<lparr>reconnectTimer := None, reconnectAttempts := n\<rparr>)))
        [0, 1, 2, 3, 4, 5, 6]
      = map Some [1000, 2000, 4000, 8000, 16000, 30000, 30000]
   \<and> (reconnectTimer c \<noteq> None \<longrightarrow> scheduleReconnect c = c)
   \<and> (reconnectAttempts c \<ge> 100 \<longrightarrow> scheduleReconnect c = c)
   \<and> reconnectAttempts (resetReconnect ctor_ok c) \<le> 1"
  by (simp add: scheduleReconnect_def resetReconnect_def connect_def isConnected_def
      minReconnectInterval_def maxReconnectInterval_def maxReconnectAttempts_def Let_def)

theorem scheduleReconnect_backoff_witness:
  "reconnectTimer (scheduleReconnect \<lparr>ws = None, reconnectTimer = None, token = None, reconnectAttempts = 5\<rparr>)
     = Some 30000
   \<and> reconnectAttempts (scheduleReconnect \<lparr>ws = None, reconnectTimer = None, token = None, reconnectAttempts = 5\<rparr>)
     = 6
   \<and> scheduleReconnect \<lparr>ws = None, reconnectTimer = Some 1000, token = None, reconnectAttempts = 1\<rparr>
     = \<lparr>ws = None, reconnectTimer = Some 1000, token = None, reconnectAttempts = 1\<rparr>
   \<and> scheduleReconnect \<lparr>ws = None, reconnectTimer = None, token = None, reconnectAttempts = 100\<rparr>
     = \<lparr>ws = None, reconnectTimer = None, token = None, reconnectAttempts = 100\<rparr>"
  using scheduleReconnect_backoff
    [of "\<lparr>ws = None, reconnectTimer = None, token = None, reconnectAttempts = 5\<rparr>"]
    scheduleReconnect_backoff
    [of "\<lparr>ws = None, reconnectTimer = Some 1000, token = None, reconnectAttempts = 1\<rparr>"]
    scheduleReconnect_backoff
    [of "\<lparr>ws = None, reconnectTimer = None, token = None, reconnectAttempts = 100\<rparr>"]
  by simp

text \<open>
  Claim C4. For a request message that parses to \<open>msg\<close> and arrives on the open socket:
  with no token configured (\<open>null\<close> or empty) the frame sent carries \<open>msg\<close>'s id and
  error code 401; with a token configured and a different message token it carries
  the id and error code 403. In both cases the method table is not called, the frame
  has no result, and the client (its socket included) is unchanged.
\<close>

theorem handleMessage_rejects_unauthenticated:
  assumes "JSON_parse data = Inr msg" and "ws c = Some OPEN"
  shows "(token c = None \<or> token c = Some [] \<longrightarrow>
            sent (handleMessage JSON_parse handleMethod c data)
              = Some \<lparr>resp_id = msg_id msg, resp_result = None,
                       resp_error = Some \<lparr>code = 401, error_message = ''MCP token not configured''\<rparr>\<rparr>)
         \<and> (token c = Some t \<and> t \<noteq> [] \<and> msg_token msg \<noteq> Some t \<longrightarrow>
            sent (handleMessage JSON_parse handleMethod c data)
              = Some \<lparr>resp_id = msg_id msg, resp_result = None,
                       resp_error = Some \<lparr>code = 403, error_message = ''Invalid or missing token''\<rparr>\<rparr>)
         \<and> (token c = None \<or> token c = Some [] \<or> msg_token msg \<noteq> token c \<longrightarrow>
            dispatched (handleMessage JSON_parse handleMethod c data) = []
            \<and> client (handleMessage JSON_parse handleMethod c data) = c
            \<and> ws (client (handleMessage JSON_parse handleMethod c data)) = Some OPEN)"
  using assms by (auto simp add: handleMessage_def ws_send_def Let_def)

theorem handleMessage_rejects_unauthenticated_witness:
  "sent (handleMessage
      (\<lambda>d. Inr \<lparr>msg_id = ''7'', msg_method = ''syncArticle'', msg_token = Some ''guess'', msg_params = (None :: unit option)\<rparr>)
      (\<lambda>m p. Inr (0::nat))
      \<lparr>ws = Some OPEN, reconnectTimer = None, token = Some ''secret'', reconnectAttempts = 0\<rparr> ''{}'')
     = Some \<lparr>resp_id = ''7'', resp_result = None,
              resp_error = Some \<lparr>code = 403, error_message = ''Invalid or missing token''\<rparr>\<rparr>
   \<and> dispatched (handleMessage
      (\<lambda>d. Inr \<lparr>msg_id = ''7'', msg_method = ''syncArticle'', msg_token = Some ''guess'', msg_params = (None :: unit option)\<rparr>)
      (\<lambda>m p. Inr (0::nat))
      \<lparr>ws = Some OPEN, reconnectTimer = None, token = Some ''secret'', reconnectAttempts = 0\<rparr> ''{}'') = []"
  using handleMessage_rejects_unauthenticated
    [where JSON_parse = "\<lambda>d. Inr \<lparr>msg_id = ''7'', msg_method = ''syncArticle'', msg_token = Some ''guess'', msg_params = (None :: unit option)\<rparr>"
       and data = "''{}''"
       and msg = "\<lparr>msg_id = ''7'', msg_method = ''syncArticle'', msg_token = Some ''guess'', msg_params = None\<rparr>"
       and c = "\<lparr>ws = Some OPEN, reconnectTimer = None, token = Some ''secret'', reconnectAttempts = 0\<rparr>"
       and t = "''secret''" and handleMethod = "\<lambda>m p. Inr (0::nat)"]
  by simp

section \<open>Properties of the sync orchestrator\<close>

lemma platform_withName [simp]: "platform (withName ps r) = platform r"
  by (simp add: withName_def)

lemma success_withName [simp]: "success (withName ps r) = success r"
  by (simp add: withName_def)

lemma platform_cms_result [simp]: "platform (cms_result env a i) = i"
  by (simp add: cms_result_def split: sum.splits option.splits)

lemma map_platform_cms: "map platform (map (cms_result env a) ids) = ids"
  by (induction ids) simp_all

lemma published_dsl_calls: "concat (map published (dsl_calls a ids s)) = ids"
  by (simp add: dsl_calls_def)

lemma published_cms_calls: "concat (map published (cms_calls a ids)) = ids"
  by (induction ids) (simp_all add: cms_calls_def)

lemma known_partition:
  assumes "\<forall>i \<in> set ids. find_platform ps i \<noteq> None"
  shows "mset (filter (has_sourceType ps dsl) ids) + mset (filter (has_sourceType ps cms) ids) = mset ids"
proof -
  have "filter (has_sourceType ps cms) ids = filter (\<lambda>i. \<not> has_sourceType ps dsl i) ids"
  proof (rule filter_cong[OF refl])
    fix i assume "i \<in> set ids"
    with assms obtain p where "find_platform ps i = Some p" by auto
    then show "has_sourceType ps cms i = (\<not> has_sourceType ps dsl i)"
      by (cases "sourceType p") (simp_all add: has_sourceType_def)
  qed
  then show ?thesis by simp
qed

text \<open>
  Claim C9. When \<open>startSync\<close> is invoked without a loaded article or with an empty
  platform selection, the store changes in its \<open>error\<close> field only: status, result
  list and selection are as before, no message is sent, nothing is written, and the
  validation message is recorded.
\<close>

theorem startSync_validation:
  assumes "article st = None \<or> selectedPlatforms st = []"
  shows "status (state (startSync env st)) = status st
       \<and> results (state (startSync env st)) = results st
       \<and> selectedPlatforms (state (startSync env st)) = selectedPlatforms st
       \<and> calls (startSync env st) = []
       \<and> stored (startSync env st) = None
       \<and> error (state (startSync env st))
           = Some (if article st = None then MSG_NO_ARTICLE else MSG_NO_SELECTION)
       \<and> state (startSync env st) = st\<lparr>error := error (state (startSync env st))\<rparr>"
  using assms by (auto simp add: startSync_def split: option.splits)

theorem startSync_validation_witness:
  "status (state (startSync chrome_ok (sample_idle\<lparr>selectedPlatforms := []\<rparr>))) = idle
   \<and> error (state (startSync chrome_ok (sample_idle\<lparr>selectedPlatforms := []\<rparr>))) = Some MSG_NO_SELECTION
   \<and> calls (startSync chrome_ok (sample_idle\<lparr>selectedPlatforms := []\<rparr>)) = []
   \<and> status (state (startSync chrome_ok (sample_idle\<lparr>article := None\<rparr>))) = idle
   \<and> error (state (startSync chrome_ok (sample_idle\<lparr>article := None\<rparr>))) = Some MSG_NO_ARTICLE
   \<and> calls (startSync chrome_ok (sample_idle\<lparr>article := None\<rparr>)) = []"
proof -
  have a: "article (sample_idle\<lparr>selectedPlatforms := []\<rparr>) = None
      \<or> selectedPlatforms (sample_idle\<lparr>selectedPlatforms := []\<rparr>) = []"
    by simp
  have b: "article (sample_idle\<lparr>article := None\<rparr>) = None
      \<or> selectedPlatforms (sample_idle\<lparr>article := None\<rparr>) = []"
    by simp
  have c: "article sample_idle = Some sample_article"
    by (simp add: sample_idle_def)
  have d: "status sample_idle = idle"
    by (simp add: sample_idle_def)
  from startSync_validation [OF a, of chrome_ok] startSync_validation [OF b, of chrome_ok] c d
  show ?thesis by simp
qed

text \<open>
  The retry law where its premises hold. Take a store with a loaded article whose result
  list holds N successes and M > 0 failures, every failed platform being in the store's
  platform list; let the background page answer the batch call with one result per
  requested platform, and let the history read and write resolve. Then \<open>retryFailed\<close>
  ends in \<open>completed\<close>; the result list is the N prior successes, verbatim and in
  order, followed by M new results, one per failed platform; exactly the failed platforms
  were re-published; and the first entry of the history read from storage is replaced in
  place by the merged list (same length, nothing appended).
\<close>

theorem retryFailed_law:
  assumes art: "article st = Some a"
    and failed: "failedPlatformIds st \<noteq> []"
    and known: "\<forall>i \<in> set (failedPlatformIds st). find_platform (platforms st) i \<noteq> None"
    and delegate: "sync_dsl env a (filter (has_sourceType (platforms st) dsl) (failedPlatformIds st)) True = Inr rs"
    and each: "mset (map platform rs) = mset (filter (has_sourceType (platforms st) dsl) (failedPlatformIds st))"
    and get: "storage_get_syncHistory env = Inr h"
    and put: "\<And>hs. storage_set_syncHistory env hs = Inr ()"
  shows "status (state (retryFailed env st)) = completed
       \<and> take (length (filter success (results st))) (results (state (retryFailed env st)))
           = filter success (results st)
       \<and> length (results (state (retryFailed env st)))
           = length (filter success (results st)) + length (filter (\<lambda>r. \<not> success r) (results st))
       \<and> mset (map platform (drop (length (filter success (results st))) (results (state (retryFailed env st)))))
           = mset (failedPlatformIds st)
       \<and> mset (concat (map published (calls (retryFailed env st)))) = mset (failedPlatformIds st)
       \<and> (case h of
            Some (first # older) \<Rightarrow>
              stored (retryFailed env st)
                = Some (first\<lparr>h_results := results (state (retryFailed env st))\<rparr> # older)
              \<and> history (state (retryFailed env st))
                = first\<lparr>h_results := results (state (retryFailed env st))\<rparr> # older
          | _ \<Rightarrow> stored (retryFailed env st) = None
                \<and> history (state (retryFailed env st)) = history st)"
proof -
  let ?F = "failedPlatformIds st"
  let ?D = "filter (has_sourceType (platforms st) dsl) ?F"
  let ?C = "filter (has_sourceType (platforms st) cms) ?F"
  let ?S = "filter success (results st)"
  let ?new = "map (withName (platforms st)) (rs @ map (cms_result env a) ?C)"
  let ?all = "?S @ ?new"
  have F: "map platform (filter (\<lambda>r. \<not> success r) (results st)) = ?F"
    by (simp add: failedPlatformIds_def)
  have part: "mset ?D + mset ?C = mset ?F"
    using known by (rule known_partition)
  have plat: "mset (map platform ?new) = mset ?F"
    using each part by (simp add: map_platform_cms comp_def)
  have len: "length ?new = length ?F"
    using plat by (metis length_map size_mset)
  have lenF: "length ?F = length (filter (\<lambda>r. \<not> success r) (results st))"
    by (simp add: failedPlatformIds_def)
  have pub: "mset (concat (map published (dsl_calls a ?D True @ cms_calls a ?C))) = mset ?F"
    using part by (simp add: published_dsl_calls published_cms_calls)
  have res: "results (state (retryFailed env st)) = ?all"
    using art failed delegate get put F
    by (simp add: retryFailed_def Let_def split: option.splits list.splits)
  have st: "status (state (retryFailed env st)) = completed"
    using art failed delegate get put F
    by (simp add: retryFailed_def Let_def split: option.splits list.splits)
  have cl: "calls (retryFailed env st) = dsl_calls a ?D True @ cms_calls a ?C"
    using art failed delegate get put F
    by (simp add: retryFailed_def Let_def split: option.splits list.splits)
  have hist: "(case h of
            Some (first # older) \<Rightarrow>
              stored (retryFailed env st) = Some (first\<lparr>h_results := ?all\<rparr> # older)
              \<and> history (state (retryFailed env st)) = first\<lparr>h_results := ?all\<rparr> # older
          | _ \<Rightarrow> stored (retryFailed env st) = None
                \<and> history (state (retryFailed env st)) = history st)"
    using art failed delegate get put F
    by (simp add: retryFailed_def Let_def split: option.splits list.splits)
  show ?thesis
    unfolding res using st plat len lenF pub hist
    by (simp add: cl res)
qed

theorem retryFailed_law_witness:
  "results (state (retryFailed chrome_ok sample_completed))
     = [sample_result ''weixin'' True, sample_result ''juejin'' True,
        \<lparr>platform = ''blog'', platformName = Some ''blog'', success = True,
         postUrl = Some ''https://blog/1'', draftOnly = Some True, result_error = None\<rparr>]
   \<and> map h_id (the (stored (retryFailed chrome_ok sample_completed))) = [''2'', ''1'']
   \<and> h_results (hd (the (stored (retryFailed chrome_ok sample_completed))))
       = results (state (retryFailed chrome_ok sample_completed))"
  using retryFailed_law [where st = sample_completed and a = sample_article and env = chrome_ok
      and rs = "[sample_result ''juejin'' True]" and h = "Some sample_history"]
  by (simp add: sample_defs failedPlatformIds_def sync_dsl_def has_sourceType_def find_platform_def
      retryFailed_def cms_result_def withName_def Let_def)

text \<open>
  Claim C1. After a completed pass with N successes and M > 0 failures, \<open>retryFailed\<close>
  is to re-publish exactly the M failed platforms and to end with the N successes plus M
  new results, the latest history entry being replaced by the merged list. The code
  breaks this on a reachable store: a pass completes with one success and one failure
  (the platform's login has expired), \<open>loadPlatforms\<close> refreshes the platform list,
  which now lacks the failed platform, and \<open>retryFailed\<close> then re-publishes nothing,
  ends in \<open>completed\<close> without an error, shows the success only, and overwrites the
  history entry with that one result: the failure is gone from both (N = 1, M = 1, one
  result).
\<close>

theorem retryFailed_drops_unlisted_platform:
  "status (state (startSync chrome_expired sample_idle)) = completed
   \<and> map platform (results (state (startSync chrome_expired sample_idle))) = [''weixin'', ''juejin'']
   \<and> map success (results (state (startSync chrome_expired sample_idle))) = [True, False]
   \<and> map p_id (platforms (loadPlatforms chrome_expired (state (startSync chrome_expired sample_idle))))
       = [''weixin'']
   \<and> calls (retryFailed chrome_expired
        (loadPlatforms chrome_expired (state (startSync chrome_expired sample_idle)))) = []
   \<and> status (state (retryFailed chrome_expired
        (loadPlatforms chrome_expired (state (startSync chrome_expired sample_idle))))) = completed
   \<and> error (state (retryFailed chrome_expired
        (loadPlatforms chrome_expired (state (startSync chrome_expired sample_idle))))) = None
   \<and> results (state (retryFailed chrome_expired
        (loadPlatforms chrome_expired (state (startSync chrome_expired sample_idle)))))
       = [sample_result ''weixin'' True]
   \<and> stored (retryFailed chrome_expired
        (loadPlatforms chrome_expired (state (startSync chrome_expired sample_idle))))
       = Some [\<lparr>h_id = ''2'', h_title = ''T'', h_cover = None, h_timestamp = 2,
                 h_results = [sample_result ''weixin'' True]\<rparr>]"
  by (simp add: sample_defs chrome_expired_def sample_idle_def startSync_def retryFailed_def
      loadPlatforms_def loadSelectedPlatforms_def
      sync_dsl_def has_sourceType_def find_platform_def
      withName_def Let_def dsl_calls_def cms_calls_def)








section \<open>Properties of the checksum utility\<close>

declare toString16.simps [simp del]

lemma crc_shift_eq: "crc_shift = crc32_iso_hdlc_bit"
proof
  fix c :: u32
  have "(c AND 1 \<noteq> 0) = bit c 0"
    by (simp add: and_one_eq bit_0 mod_2_eq_odd)
  then show "crc_shift c = crc32_iso_hdlc_bit c"
    by (simp add: crc_shift_def crc32_iso_hdlc_bit_def xor.commute)
qed

lemma bit_step_xor: "crc32_iso_hdlc_bit (x XOR y) = crc32_iso_hdlc_bit x XOR crc32_iso_hdlc_bit y"
  by (cases "bit x 0"; cases "bit y 0")
     (simp_all add: crc32_iso_hdlc_bit_def bit_xor_iff drop_bit_xor ac_simps)

lemma bit_steps_xor:
  "(crc32_iso_hdlc_bit ^^ n) (x XOR y) = (crc32_iso_hdlc_bit ^^ n) x XOR (crc32_iso_hdlc_bit ^^ n) y"
  by (induction n) (simp_all add: bit_step_xor)

lemma bit_steps_high:
  "take_bit n x = 0 \<Longrightarrow> (crc32_iso_hdlc_bit ^^ n) x = drop_bit n x"
proof (induction n arbitrary: x)
  case 0
  then show ?case by simp
next
  case (Suc n)
  have "bit (take_bit (Suc n) x) 0 = bit x 0"
    by (simp add: bit_take_bit_iff)
  with Suc.prems have b0: "\<not> bit x 0" by simp
  have "take_bit n (drop_bit 1 x) = drop_bit 1 (take_bit (Suc n) x)"
    by (simp add: take_bit_drop_bit)
  with Suc.prems have t: "take_bit n (drop_bit 1 x) = 0" by simp
  have "(crc32_iso_hdlc_bit ^^ Suc n) x = (crc32_iso_hdlc_bit ^^ n) (crc32_iso_hdlc_bit x)"
    by (simp add: funpow_swap1)
  also have "\<dots> = (crc32_iso_hdlc_bit ^^ n) (drop_bit 1 x)"
    using b0 by (simp add: crc32_iso_hdlc_bit_def)
  also have "\<dots> = drop_bit n (drop_bit 1 x)"
    using t by (rule Suc.IH)
  finally show ?case by (simp add: drop_bit_drop_bit)
qed


lemma table_lookup:
  assumes "i < 256"
  shows "buildCRC32Table ! i = (crc32_iso_hdlc_bit ^^ 8) (of_nat i)"
  using assms by (simp add: buildCRC32Table_def table_entry_def crc_shift_eq)

lemma low_byte_bound: "unat ((x :: u32) AND 0xFF) < 256"
proof -
  have "x AND 0xFF = take_bit 8 x"
    by (simp add: take_bit_eq_mask mask_eq_exp_minus_1)
  then show ?thesis
    by (simp add: unsigned_take_bit_eq take_bit_nat_less_exp[of 8, simplified] )
qed

lemma split_low_byte: "(x :: u32) = push_bit 8 (drop_bit 8 x) XOR (x AND 0xFF)"
proof -
  have m: "x AND 0xFF = take_bit 8 x"
    by (simp add: take_bit_eq_mask mask_eq_exp_minus_1)
  show ?thesis
    unfolding m by (rule bit_eqI) (auto simp add: bit_simps)
qed

lemma crc_update_table:
  "crc_update buildCRC32Table crc b = crc32_iso_hdlc_byte crc b"
proof -
  let ?x = "crc XOR ucast b"
  let ?lo = "?x AND 0xFF"
  let ?hi = "push_bit 8 (drop_bit 8 ?x)"
  have hi0: "take_bit 8 ?hi = 0"
    by (simp add: take_bit_push_bit)
  have dropb: "drop_bit 8 (ucast b :: u32) = 0"
    by (rule bit_eqI) (auto simp add: bit_simps dest: bit_imp_le_length)
  have dp: "drop_bit 8 (push_bit 8 (drop_bit 8 y)) = drop_bit 8 y" for y :: u32
    by (rule bit_eqI) (auto simp add: bit_simps dest: bit_imp_le_length)
  have hi: "(crc32_iso_hdlc_bit ^^ 8) ?hi = drop_bit 8 crc"
    using bit_steps_high [OF hi0] by (simp add: drop_bit_xor dropb dp)
  have lo: "buildCRC32Table ! unat ?lo = (crc32_iso_hdlc_bit ^^ 8) ?lo"
    using table_lookup [OF low_byte_bound, of ?x] by simp
  have "crc32_iso_hdlc_byte crc b = (crc32_iso_hdlc_bit ^^ 8) (?hi XOR ?lo)"
    using split_low_byte [of ?x] by (simp add: crc32_iso_hdlc_byte_def)
  also have "\<dots> = drop_bit 8 crc XOR buildCRC32Table ! unat ?lo"
    by (simp only: bit_steps_xor hi lo)
  finally show ?thesis by (simp add: crc_update_def)
qed

lemma crc_loop_table:
  "foldl (crc_update buildCRC32Table) crc data = foldl crc32_iso_hdlc_byte crc data"
  by (induction data arbitrary: crc) (simp_all add: crc_update_table)

lemma funpow8: "(f ^^ 8) x = f (f (f (f (f (f (f (f x)))))))"
  by (simp add: eval_nat_numeral)

lemma hex_digit_value_nth:
  assumes "d < 16"
  shows "hex_digit_value (''0123456789abcdef'' ! d) = d"
proof -
  from assms have "d \<in> {0, 1, 2, 3, 4, 5, 6, 7, 8, 9, 10, 11, 12, 13, 14, 15}" by simp arith
  then show ?thesis
    by (auto simp add: hex_digit_value_def)
qed

lemma hex_value_snoc: "hex_value (s @ [c]) = 16 * hex_value s + hex_digit_value c"
  by (simp add: hex_value_def)

lemma hex_value_toString16: "hex_value (toString16 n) = n"
proof (induction n rule: toString16.induct)
  case (1 n)
  show ?case
  proof (cases "n < 16")
    case True
    then show ?thesis
      by (simp add: toString16.simps [of n] hex_value_def hex_digit_value_nth)
  next
    case False
    with "1" have "hex_value (toString16 (n div 16)) = n div 16" by simp
    with False show ?thesis
      by (simp add: toString16.simps [of n] hex_value_snoc hex_digit_value_nth)
  qed
qed

lemma hex_value_zeros: "hex_value (replicate k (CHR ''0'') @ s) = hex_value s"
proof -
  have "foldl (\<lambda>a c. 16 * a + hex_digit_value c) 0 (replicate k (CHR ''0'')) = 0"
    by (induction k) (simp_all add: hex_digit_value_def)
  then show ?thesis by (simp add: hex_value_def)
qed

lemma hex_value_padStart: "hex_value (padStart n (CHR ''0'') (toString16 m)) = m"
  by (simp add: padStart_def hex_value_zeros hex_value_toString16)

lemma length_toString16: "0 < k \<Longrightarrow> n < 16 ^ k \<Longrightarrow> length (toString16 n) \<le> k"
proof (induction n arbitrary: k rule: toString16.induct)
  case (1 n)
  show ?case
  proof (cases "n < 16")
    case True
    with "1.prems" show ?thesis by (simp add: toString16.simps [of n] Suc_leI)
  next
    case False
    from "1.prems" obtain j where k: "k = Suc j" by (cases k) auto
    with False "1.prems" have j: "0 < j" by (cases j) auto
    from k "1.prems" have "n div 16 < 16 ^ j"
      by (simp add: less_mult_imp_div_less mult.commute)
    with "1.IH" [OF False j] have "length (toString16 (n div 16)) \<le> j" .
    with False k show ?thesis by (simp add: toString16.simps [of n])
  qed
qed

lemma set_toString16: "set (toString16 n) \<subseteq> set ''0123456789abcdef''"
proof (induction n rule: toString16.induct)
  case (1 n)
  have d: "''0123456789abcdef'' ! d \<in> set ''0123456789abcdef''" if "d < 16" for d
    by (rule nth_mem) (use that in simp)
  show ?case
  proof (cases "n < 16")
    case True
    with d [of n] show ?thesis by (simp add: toString16.simps [of n])
  next
    case False
    with "1" d [of "n mod 16"] show ?thesis by (simp add: toString16.simps [of n])
  qed
qed

lemma length_hex8:
  assumes "n < 2 ^ 32"
  shows "length (padStart 8 (CHR ''0'') (toString16 n)) = 8"
proof -
  from assms have "n < 16 ^ 8" by simp
  then have "length (toString16 n) \<le> 8" by (intro length_toString16) simp_all
  then show ?thesis by (simp add: padStart_def)
qed

lemma set_hex8: "set (padStart 8 (CHR ''0'') (toString16 n)) \<subseteq> set ''0123456789abcdef''"
  using set_toString16 [of n] by (auto simp add: padStart_def)

lemma crc32_cold: "crc32 None data
    = (padStart 8 (CHR ''0'') (toString16 (unat (crc32_iso_hdlc data))), Some buildCRC32Table)"
  by (simp add: crc32_def getCRC32Table_def crc_loop_table crc32_iso_hdlc_def)

lemma crc32_warm: "crc32 (Some buildCRC32Table) data
    = (padStart 8 (CHR ''0'') (toString16 (unat (crc32_iso_hdlc data))), Some buildCRC32Table)"
  by (simp add: crc32_def getCRC32Table_def crc_loop_table crc32_iso_hdlc_def)

lemma check_spec: "crc32_iso_hdlc (map of_char ''123456789'') = 0xCBF43926"
  by (simp add: crc32_iso_hdlc_def crc32_iso_hdlc_byte_def crc32_iso_hdlc_bit_def funpow8)

lemma check_hex: "padStart 8 (CHR ''0'') (toString16 (unat (0xCBF43926 :: u32))) = ''cbf43926''"
  by (simp add: toString16.simps padStart_def)

text \<open>
  Claim C6. For every byte sequence, \<open>crc32\<close> returns the CRC-32/ISO-HDLC value of
  the bytes (reflected polynomial 0xEDB88320, initial value 0xFFFFFFFF, final XOR
  0xFFFFFFFF) written as eight lowercase hexadecimal digits; for the ASCII bytes of
  "123456789" it returns cbf43926. The first call builds the 256-entry table and caches
  it; a call that finds a cached table uses it and leaves it in place, so later calls
  compute the same values without rebuilding.
\<close>

theorem crc32_is_iso_hdlc:
  "hex_value (fst (crc32 None data)) = unat (crc32_iso_hdlc data)
   \<and> length (fst (crc32 None data)) = 8
   \<and> set (fst (crc32 None data)) \<subseteq> set ''0123456789abcdef''
   \<and> fst (crc32 None (map of_char ''123456789'')) = ''cbf43926''
   \<and> length buildCRC32Table = 256
   \<and> snd (crc32 None data) = Some buildCRC32Table
   \<and> getCRC32Table (Some t) = (t, Some t)
   \<and> snd (crc32 (Some t) data) = Some t
   \<and> crc32 (snd (crc32 None data')) data = crc32 None data"
proof -
  have v: "hex_value (fst (crc32 None data)) = unat (crc32_iso_hdlc data)"
    by (simp add: crc32_cold hex_value_padStart)
  have "unat (crc32_iso_hdlc data) < 2 ^ 32"
    using unsigned_less [of "crc32_iso_hdlc data", where 'a = nat] by simp
  then have l: "length (fst (crc32 None data)) = 8"
    by (simp add: crc32_cold length_hex8)
  have c: "set (fst (crc32 None data)) \<subseteq> set ''0123456789abcdef''"
    unfolding crc32_cold fst_conv by (rule set_hex8)
  have k: "fst (crc32 None (map of_char ''123456789'')) = ''cbf43926''"
    by (simp only: crc32_cold fst_conv check_spec check_hex)
  have t: "length buildCRC32Table = 256"
    by (simp add: buildCRC32Table_def)
  have b: "snd (crc32 None data) = Some buildCRC32Table"
    by (simp add: crc32_cold)
  have g: "getCRC32Table (Some t) = (t, Some t)"
    by (simp add: getCRC32Table_def)
  have r: "snd (crc32 (Some t) data) = Some t"
    by (simp add: crc32_def getCRC32Table_def)
  have w: "crc32 (snd (crc32 None data')) data = crc32 None data"
    by (simp only: crc32_cold snd_conv crc32_warm)
  from v l c k t b g r w show ?thesis by (intro conjI)
qed

section \<open>Properties of the formula pipeline\<close>























lemma currency_pieces:
  "js ''pay $5 for a_b or $10 now'' = js ''pay '' @ dollars 1 @ js ''5 for a_b or '' @ dollars 1 @ js ''10 now''"
  by (simp add: js_def dollars_def)














section \<open>Properties of the canonical query string\<close>

lemma sortedParams_eq:
  assumes "mset xs = mset ys"
    and "\<And>k. filter (\<lambda>p. collation_key (fst p) = k) xs = filter (\<lambda>p. collation_key (fst p) = k) ys"
  shows "sortedParams collation_key xs = sortedParams collation_key ys"
  unfolding sortedParams_def
proof (rule properties_for_sort_key)
  let ?f = "\<lambda>p. collation_key (fst p)"
  show "mset (sort_key ?f ys) = mset xs"
    using assms(1) by simp
  show "sorted (map ?f (sort_key ?f ys))"
    by simp
  fix k
  have "filter (\<lambda>p. ?f k = ?f p) (sort_key ?f ys) = filter (\<lambda>p. ?f p = ?f k) (sort_key ?f ys)"
    by (rule filter_cong) auto
  also have "\<dots> = filter (\<lambda>p. ?f p = ?f k) ys"
    by (rule sort_key_stable)
  also have "\<dots> = filter (\<lambda>p. ?f p = ?f k) xs"
    by (rule assms(2) [symmetric])
  also have "\<dots> = filter (\<lambda>p. ?f k = ?f p) xs"
    by (rule filter_cong) auto
  finally show "filter (\<lambda>p. ?f k = ?f p) (sort_key ?f ys) = filter (\<lambda>p. ?f k = ?f p) xs" .
qed

text \<open>
  Claim C5 (amended). Two lists of query parameters with the same multiset of (name,
  value) pairs have the same canonical query string, provided the parameters whose names
  the collation treats as equal (in particular, the parameters with one and the same
  name) appear in the same relative order in both.
\<close>

theorem canonical_query_order_independent:
  assumes "mset xs = mset ys"
    and "\<And>k. filter (\<lambda>p. collation_key (fst p) = k) xs = filter (\<lambda>p. collation_key (fst p) = k) ys"
  shows "canonicalQueryString collation_key xs = canonicalQueryString collation_key ys"
  using sortedParams_eq [OF assms] by (simp add: canonicalQueryString_def)

text \<open>
  The claim as stated fails when a name occurs twice: the sort compares names only and
  is stable, so \<open>a=1&a=2\<close> and \<open>a=2&a=1\<close> are both left as they are.
\<close>

theorem canonical_query_duplicate_names:
  "mset [(js ''a'', js ''1''), (js ''a'', js ''2'')] = mset [(js ''a'', js ''2''), (js ''a'', js ''1'')]
   \<and> canonicalQueryString code_unit_order [(js ''a'', js ''1''), (js ''a'', js ''2'')] = Inr (js ''a=1&a=2'')
   \<and> canonicalQueryString code_unit_order [(js ''a'', js ''2''), (js ''a'', js ''1'')] = Inr (js ''a=2&a=1'')
   \<and> canonicalQueryString code_unit_order [(js ''a'', js ''1''), (js ''a'', js ''2'')]
       \<noteq> canonicalQueryString code_unit_order [(js ''a'', js ''2''), (js ''a'', js ''1'')]"
  by (simp add: canonicalQueryString_def sortedParams_def code_unit_order_def js_def uriUnreserved_def)

theorem canonical_query_order_independent_witness:
  "canonicalQueryString code_unit_order [(js ''b'', js ''3''), (js ''a'', js ''1''), (js ''a'', js ''2'')]
     = canonicalQueryString code_unit_order [(js ''a'', js ''1''), (js ''b'', js ''3''), (js ''a'', js ''2'')]
   \<and> canonicalQueryString code_unit_order [(js ''a'', js ''1''), (js ''b'', js ''3''), (js ''a'', js ''2'')]
     = Inr (js ''a=1&a=2&b=3'')"
proof -
  have m: "mset [(js ''b'', js ''3''), (js ''a'', js ''1''), (js ''a'', js ''2'')]
      = mset [(js ''a'', js ''1''), (js ''b'', js ''3''), (js ''a'', js ''2'')]"
    by (simp add: js_def)
  have f: "filter (\<lambda>p. code_unit_order (fst p) = k) [(js ''b'', js ''3''), (js ''a'', js ''1''), (js ''a'', js ''2'')]
      = filter (\<lambda>p. code_unit_order (fst p) = k) [(js ''a'', js ''1''), (js ''b'', js ''3''), (js ''a'', js ''2'')]" for k
    by (auto simp add: js_def code_unit_order_def)
  have v: "canonicalQueryString code_unit_order [(js ''a'', js ''1''), (js ''b'', js ''3''), (js ''a'', js ''2'')]
      = Inr (js ''a=1&a=2&b=3'')"
    by (simp add: canonicalQueryString_def sortedParams_def code_unit_order_def js_def uriUnreserved_def)
  from canonical_query_order_independent [of _ _ code_unit_order, OF m f] v show ?thesis by simp
qed

section \<open>Properties of the adapters\<close>

lemma weixin_checkAuth_resolves:
  "\<exists>r. fst (weixin_checkAuth html_match now rt this) = Inr r"
  by (cases "weixin_checkAuth_try html_match now rt this")
     (auto simp add: weixin_checkAuth_def split: sum.splits)

lemma weixin_checkAuth_failure:
  assumes "fst (weixin_checkAuth_try html_match now rt this) = Inl e"
  shows "fst (weixin_checkAuth html_match now rt this) = Inr (auth_failed e)"
  using assms
  by (cases "weixin_checkAuth_try html_match now rt this")
     (auto simp add: weixin_checkAuth_def split: sum.splits)

lemma juejin_checkAuth_resolves: "\<exists>r. juejin_checkAuth rt = Inr r"
  by (simp add: juejin_checkAuth_def split: sum.splits)

lemma removeHeaderRules_without_rules:
  "headerRules rt = None \<Longrightarrow> removeHeaderRules rt this = (Inr (), this)"
  by (simp add: removeHeaderRules_def)

lemma imooc_checkAuth_resolves_without_rules:
  assumes "headerRules rt = None"
  shows "\<exists>r. fst (imooc_checkAuth JSON_parse rt this) = Inr r"
  using assms
  by (cases "imooc_checkAuth_try JSON_parse rt this")
     (auto simp add: imooc_checkAuth_def removeHeaderRules_without_rules split: sum.splits)

lemma removeHeaderRules_resolves:
  assumes "\<And>rules i. headerRules rt = Some rules \<Longrightarrow> \<exists>u. rules_remove rules i = Inr u"
  shows "\<exists>this1. removeHeaderRules rt this = (Inr (), this1)"
proof (cases "headerRules rt")
  case None
  then show ?thesis by (simp add: removeHeaderRules_def)
next
  case (Some rules)
  show ?thesis
  proof (cases "headerRuleId this")
    case None
    with Some show ?thesis by (simp add: removeHeaderRules_def)
  next
    case (Some i)
    from assms [OF \<open>headerRules rt = Some rules\<close>, of i] obtain u where "rules_remove rules i = Inr u" ..
    with Some \<open>headerRules rt = Some rules\<close> show ?thesis by (simp add: removeHeaderRules_def)
  qed
qed

lemma imooc_checkAuth_resolves_if_removal_does:
  assumes "\<And>rules i. headerRules rt = Some rules \<Longrightarrow> \<exists>u. rules_remove rules i = Inr u"
  shows "\<exists>r. fst (imooc_checkAuth JSON_parse rt this) = Inr r"
proof (cases "imooc_checkAuth_try JSON_parse rt this")
  case (Pair outcome this1)
  show ?thesis
  proof (cases outcome)
    case (Inr r)
    with Pair show ?thesis by (simp add: imooc_checkAuth_def)
  next
    case (Inl e)
    from removeHeaderRules_resolves [of rt this1, OF assms] obtain this2
      where "removeHeaderRules rt this1 = (Inr (), this2)" by blast
    with Pair Inl show ?thesis by (simp add: imooc_checkAuth_def)
  qed
qed

text \<open>
  Claim C7. \<open>checkAuth\<close> of the Weixin and Juejin adapters resolves whatever the
  runtime does (lemmas above), and so does the Imooc adapter's while the removal of its
  header rule resolves. The Imooc adapter's \<open>checkAuth\<close> rejects, however, when the
  request fails and the removal of the header rule fails too: its \<open>catch\<close> block
  awaits \<open>removeHeaderRules\<close> unguarded.
\<close>

theorem imooc_checkAuth_rejects:
  "fst (imooc_checkAuth no_json offline_runtime \<lparr>headerRuleId = None\<rparr>)
     = Inl (Error ''rule removal failed'')"
  by (simp add: imooc_checkAuth_def imooc_checkAuth_try_def addHeaderRules_def removeHeaderRules_def
      offline_runtime_def failing_rules_def)

lemma uploadImageByUrl_resolves:
  "\<exists>r. fst (uploadImageByUrl toString global_fetch rt this src) = Inr r"
  by (cases "uploadImageByUrl_try toString global_fetch rt this src")
     (auto simp add: uploadImageByUrl_def split: sum.splits)

lemma uploadImageByUrl_caught:
  assumes "fst (uploadImageByUrl_try toString global_fetch rt this src) = Inl e"
  shows "fst (uploadImageByUrl toString global_fetch rt this src) = Inr \<lparr>url = JStr src\<rparr>"
  using assms
  by (cases "uploadImageByUrl_try toString global_fetch rt this src")
     (auto simp add: uploadImageByUrl_def split: sum.splits)

lemma get_prop_nonnull:
  "data \<noteq> JNull \<Longrightarrow> get_prop data k = Inr (get_prop_optional (Some data) k)"
  by (cases data) (simp_all add: get_prop_def get_prop_optional_def)

lemma get_prop_null: "get_prop JNull k = Inl (TypeError MSG_NULL_READ)"
  by (simp add: get_prop_def)

lemma truthy_not_zero: "truthy v \<Longrightarrow> v \<noteq> Some (JNum 0)"
  by (auto simp add: truthy_def)

lemma uploadImageByUrl_remote_parsed:
  assumes "take 5 src \<noteq> ''data:''"
    and "fetch rt (juejin_urlSave_request src) = Inr response" and "http_json response = Inr data"
  shows "uploadImageByUrl toString global_fetch rt this src
      = (Inr \<lparr>url = (if data = JNull \<or> truthy (get_prop_optional (Some data) ''err_no'')
                         \<or> \<not> truthy (get_prop_optional (Some data) ''data'')
                      then JStr src else the (get_prop_optional (Some data) ''data''))\<rparr>, this)"
proof (cases "data = JNull")
  case True
  with assms show ?thesis
    by (simp add: uploadImageByUrl_def uploadImageByUrl_try_def get_prop_null)
next
  case False
  show ?thesis
  proof (cases "truthy (get_prop_optional (Some data) ''err_no'')")
    case True
    with assms False truthy_not_zero [OF True] show ?thesis
      by (simp add: uploadImageByUrl_def uploadImageByUrl_try_def get_prop_nonnull)
  next
    case no_error: False
    show ?thesis
    proof (cases "get_prop_optional (Some data) ''data''")
      case None
      with assms False no_error show ?thesis
        by (simp add: uploadImageByUrl_def uploadImageByUrl_try_def get_prop_nonnull truthy_def)
    next
      case (Some d)
      with assms False no_error show ?thesis
        by (simp add: uploadImageByUrl_def uploadImageByUrl_try_def get_prop_nonnull)
    qed
  qed
qed

lemma uploadImageByUrl_remote_failed:
  assumes "take 5 src \<noteq> ''data:''"
    and "fetch rt (juejin_urlSave_request src) = Inl e
         \<or> (\<exists>response. fetch rt (juejin_urlSave_request src) = Inr response \<and> http_json response = Inl e)"
  shows "uploadImageByUrl toString global_fetch rt this src = (Inr \<lparr>url = JStr src\<rparr>, this)"
  using assms by (auto simp add: uploadImageByUrl_def uploadImageByUrl_try_def)

text \<open>
  Claim C10 (amended). \<open>uploadImageByUrl\<close> of the Juejin adapter resolves for every
  source, data URI or not. Whenever its \<open>try\<close> block throws the result is the source
  unchanged; for a source that is not a data URI this is so when the URL-upload call
  fails, when its body does not parse, when the answer is \<open>null\<close>, carries a business
  error code or carries no data; for a data URI it is so when the binary upload rejects.
\<close>

theorem uploadImageByUrl_degrades:
  "(\<exists>r. fst (uploadImageByUrl toString global_fetch rt this src) = Inr r)
   \<and> (fst (uploadImageByUrl_try toString global_fetch rt this src) = Inl e \<longrightarrow>
        fst (uploadImageByUrl toString global_fetch rt this src) = Inr \<lparr>url = JStr src\<rparr>)
   \<and> (take 5 src \<noteq> ''data:'' \<and>
        (fetch rt (juejin_urlSave_request src) = Inl e
         \<or> (\<exists>response. fetch rt (juejin_urlSave_request src) = Inr response \<and> http_json response = Inl e)) \<longrightarrow>
        fst (uploadImageByUrl toString global_fetch rt this src) = Inr \<lparr>url = JStr src\<rparr>)
   \<and> (take 5 src \<noteq> ''data:'' \<and> fetch rt (juejin_urlSave_request src) = Inr response
        \<and> http_json response = Inr data
        \<and> (data = JNull \<or> truthy (get_prop_optional (Some data) ''err_no'')
            \<or> \<not> truthy (get_prop_optional (Some data) ''data'')) \<longrightarrow>
        fst (uploadImageByUrl toString global_fetch rt this src) = Inr \<lparr>url = JStr src\<rparr>)
   \<and> (take 5 src = ''data:'' \<and> global_fetch src = Inr local \<and> http_blob local = Inr file
        \<and> fst (uploadImageBinaryInternal toString rt this file) = Inl e \<longrightarrow>
        fst (uploadImageByUrl toString global_fetch rt this src) = Inr \<lparr>url = JStr src\<rparr>)"
proof -
  have 1: "\<exists>r. fst (uploadImageByUrl toString global_fetch rt this src) = Inr r"
    by (rule uploadImageByUrl_resolves)
  have 2: "fst (uploadImageByUrl_try toString global_fetch rt this src) = Inl e \<longrightarrow>
        fst (uploadImageByUrl toString global_fetch rt this src) = Inr \<lparr>url = JStr src\<rparr>"
    by (simp add: uploadImageByUrl_caught)
  have 3: "take 5 src \<noteq> ''data:'' \<and>
        (fetch rt (juejin_urlSave_request src) = Inl e
         \<or> (\<exists>response. fetch rt (juejin_urlSave_request src) = Inr response \<and> http_json response = Inl e)) \<longrightarrow>
        fst (uploadImageByUrl toString global_fetch rt this src) = Inr \<lparr>url = JStr src\<rparr>"
    using uploadImageByUrl_remote_failed [of src rt e toString global_fetch this] by auto
  have 4: "take 5 src \<noteq> ''data:'' \<and> fetch rt (juejin_urlSave_request src) = Inr response
        \<and> http_json response = Inr data
        \<and> (data = JNull \<or> truthy (get_prop_optional (Some data) ''err_no'')
            \<or> \<not> truthy (get_prop_optional (Some data) ''data'')) \<longrightarrow>
        fst (uploadImageByUrl toString global_fetch rt this src) = Inr \<lparr>url = JStr src\<rparr>"
    by (auto simp add: uploadImageByUrl_remote_parsed)
  have 5: "take 5 src = ''data:'' \<and> global_fetch src = Inr local \<and> http_blob local = Inr file
        \<and> fst (uploadImageBinaryInternal toString rt this file) = Inl e \<longrightarrow>
        fst (uploadImageByUrl toString global_fetch rt this src) = Inr \<lparr>url = JStr src\<rparr>"
    by (cases "uploadImageBinaryInternal toString rt this file")
       (auto simp add: uploadImageByUrl_def uploadImageByUrl_try_def)
  from 1 2 3 4 5 show ?thesis by (intro conjI)
qed

text \<open>
  The claim as stated fails for data URIs: with a runtime that is offline the binary
  upload rejects, and \<open>uploadImageByUrl\<close> still resolves, to the data URI itself.
\<close>

theorem uploadImageByUrl_data_uri_resolves:
  "fst (uploadImageBinaryInternal plain_toString offline_runtime \<lparr>cachedCsrfToken = None\<rparr> (Blob sample_data_uri))
     = Inl (TypeError ''Failed to fetch'')
   \<and> fst (uploadImageByUrl plain_toString local_fetch offline_runtime \<lparr>cachedCsrfToken = None\<rparr> sample_data_uri)
     = Inr \<lparr>url = JStr sample_data_uri\<rparr>"
  by (simp add: uploadImageByUrl_def uploadImageByUrl_try_def uploadImageBinaryInternal_def
      getCsrfToken_def requestCsrfToken_def offline_runtime_def local_fetch_def sample_data_uri_def)

theorem uploadImageByUrl_degrades_witness:
  "fst (uploadImageByUrl plain_toString local_fetch busy_runtime \<lparr>cachedCsrfToken = None\<rparr> ''https://x.test/a.png'')
     = Inr \<lparr>url = JStr ''https://x.test/a.png''\<rparr>
   \<and> fst (uploadImageByUrl plain_toString local_fetch offline_runtime \<lparr>cachedCsrfToken = None\<rparr> ''https://x.test/a.png'')
     = Inr \<lparr>url = JStr ''https://x.test/a.png''\<rparr>"
proof -
  have a: "fst (uploadImageByUrl plain_toString local_fetch busy_runtime \<lparr>cachedCsrfToken = None\<rparr> ''https://x.test/a.png'')
      = Inr \<lparr>url = JStr ''https://x.test/a.png''\<rparr>"
    using uploadImageByUrl_degrades [where src = "''https://x.test/a.png''" and rt = busy_runtime
        and response = "\<lparr>http_ok = True, http_status = 200, http_header = (\<lambda>h. None),
                        http_text = Inr [],
                        http_json = Inr (JObj [(''err_no'', JNum 2), (''err_msg'', JStr ''busy'')]),
                        http_blob = Inl (TypeError ''no body'')\<rparr>"
        and data = "JObj [(''err_no'', JNum 2), (''err_msg'', JStr ''busy'')]"
        and toString = plain_toString and global_fetch = local_fetch
        and this = "\<lparr>cachedCsrfToken = None\<rparr>"]
    by (simp add: busy_runtime_def truthy_def get_prop_optional_def)
  have b: "fst (uploadImageByUrl plain_toString local_fetch offline_runtime \<lparr>cachedCsrfToken = None\<rparr> ''https://x.test/a.png'')
      = Inr \<lparr>url = JStr ''https://x.test/a.png''\<rparr>"
    using uploadImageByUrl_degrades [where src = "''https://x.test/a.png''" and rt = offline_runtime
        and e = "TypeError ''Failed to fetch''"
        and toString = plain_toString and global_fetch = local_fetch
        and this = "\<lparr>cachedCsrfToken = None\<rparr>"]
    by (simp add: offline_runtime_def)
  from a b show ?thesis by (rule conjI)
qed

end
